theory Spec2Isabelle
  imports Complex_Main
begin

section \<open>Values\<close>

text \<open>
  A Python float is a real number or NaN; \<open>None\<close> stands for NaN (a missing measurement
  in a pandas column). Every ordering comparison with NaN is false, as in Python.
  Infinities and rounding are not modelled: decimal literals denote the reals they spell.
\<close>

type_synonym pyfloat = "real option"

definition fgt :: "pyfloat \<Rightarrow> real \<Rightarrow> bool" where
  "fgt x c = (case x of None \<Rightarrow> False | Some r \<Rightarrow> c < r)"

definition flt :: "pyfloat \<Rightarrow> real \<Rightarrow> bool" where
  "flt x c = (case x of None \<Rightarrow> False | Some r \<Rightarrow> r < c)"

section \<open>Severity and alert-type classification (src/utils/cyoda\_client.py)\<close>

text \<open>\<open>CyodaAlertClient.classify_severity\<close>: the \<open>if\<close>/\<open>elif\<close> chains, in source order.\<close>

definition classify_severity :: "pyfloat \<Rightarrow> pyfloat \<Rightarrow> string \<Rightarrow> string" where
  "classify_severity anomaly_score val metric =
     (if metric = ''temperature'' then
        (if fgt anomaly_score 0.9 \<or> fgt val 40 \<or> flt val (-10) then ''critical''
         else if fgt anomaly_score 0.7 \<or> fgt val 35 \<or> flt val (-5) then ''high''
         else if fgt anomaly_score 0.5 then ''medium''
         else ''low'')
      else if metric = ''precipitation'' then
        (if fgt anomaly_score 0.9 \<or> fgt val 100 then ''critical''
         else if fgt anomaly_score 0.7 \<or> fgt val 50 then ''high''
         else if fgt anomaly_score 0.5 then ''medium''
         else ''low'')
      else
        (if fgt anomaly_score 0.85 then ''critical''
         else if fgt anomaly_score 0.7 then ''high''
         else if fgt anomaly_score 0.5 then ''medium''
         else ''low''))"

text \<open>
  \<open>CyodaAlertClient.determine_alert_type\<close>. The third argument, \<open>seasonal_context\<close>,
  is accepted and never read.
\<close>

definition determine_alert_type :: "pyfloat \<Rightarrow> string \<Rightarrow> 'c option \<Rightarrow> string" where
  "determine_alert_type val metric seasonal_context =
     (if metric = ''temperature'' then
        (if fgt val 35 then ''heat_wave''
         else if flt val 0 then ''freeze_event''
         else if flt val 5 then ''cold_snap''
         else ''temperature_anomaly'')
      else if metric = ''precipitation'' then
        (if fgt val 50 then ''extreme_precipitation''
         else if flt val 0.1 then ''drought_indicator''
         else ''precipitation_anomaly'')
      else ''climate_anomaly'')"

text \<open>
  The order on severities is the table \<open>severity_order\<close> of
  \<open>ClimateAlertService.prioritize_alerts\<close>, read with \<open>.get(severity, 0)\<close>.
\<close>

definition severity_order :: "string \<Rightarrow> nat" where
  "severity_order s =
     (if s = ''critical'' then 4 else if s = ''high'' then 3
      else if s = ''medium'' then 2 else if s = ''low'' then 1 else 0)"

section \<open>Python values and dictionaries\<close>

text \<open>
  The JSON-like values the client and the routes pass around. A dictionary is an
  association list with distinct keys in insertion order, as a Python \<open>dict\<close> keeps them.
\<close>

datatype pyval =
    PNone
  | PBool bool
  | PInt int
  | PFloat pyfloat
  | PStr string
  | PList "pyval list"
  | PDict "(string \<times> pyval) list"

text \<open>Python truthiness (\<open>if x:\<close>); NaN is truthy.\<close>

fun truthy :: "pyval \<Rightarrow> bool" where
  "truthy PNone = False"
| "truthy (PBool b) = b"
| "truthy (PInt i) = (i \<noteq> 0)"
| "truthy (PFloat x) = (x \<noteq> Some 0)"
| "truthy (PStr s) = (s \<noteq> [])"
| "truthy (PList xs) = (xs \<noteq> [])"
| "truthy (PDict kvs) = (kvs \<noteq> [])"

text \<open>\<open>d[k] = v\<close>: an existing key keeps its place, a new key goes last.\<close>

fun dict_set :: "(string \<times> 'v) list \<Rightarrow> string \<Rightarrow> 'v \<Rightarrow> (string \<times> 'v) list" where
  "dict_set [] k v = [(k, v)]"
| "dict_set ((k', v') # kvs) k v =
     (if k' = k then (k, v) # kvs else (k', v') # dict_set kvs k v)"

text \<open>\<open>d.get(k)\<close> on a value that is a dictionary; \<open>None\<close> when the key is absent.\<close>

definition dict_get :: "pyval \<Rightarrow> string \<Rightarrow> pyval option" where
  "dict_get d k = (case d of PDict kvs \<Rightarrow> map_of kvs k | _ \<Rightarrow> None)"

section \<open>Program state\<close>

text \<open>
  What the alert code could read or write outside its arguments: the clock
  (\<open>datetime.utcnow().isoformat()\<close>, as the string it yields), the entities held by the
  external Cyoda platform, and the attribute \<open>list_alerts.cached_alerts\<close> of the route
  (\<open>None\<close> until the first request creates it). \<open>CyodaAlertClient\<close> itself has no
  instance field: \<open>__init__\<close> is \<open>pass\<close>, and \<open>ENTITY_MODEL\<close>, \<open>ENTITY_VERSION\<close> are
  class constants.
\<close>

record world =
  utcnow :: string
  cyoda_entities :: "pyval list"
  cached_alerts :: "pyval list option"

definition ENTITY_MODEL :: string where
  "ENTITY_MODEL = ''climate_alert''"

definition ENTITY_VERSION :: string where
  "ENTITY_VERSION = ''1''"

section \<open>The Cyoda client (src/utils/cyoda\_client.py)\<close>

text \<open>
  The keyword arguments of \<open>create_alert\<close>. Python checks no types, so each is any
  value; \<open>default_params\<close> holds the defaults of the signature.
\<close>

record alert_params =
  p_alert_type :: pyval
  p_severity :: pyval
  p_value :: pyval
  p_date :: pyval
  p_anomaly_score :: pyval
  p_location :: pyval
  p_metric :: pyval
  p_description :: pyval
  p_ai_analysis :: pyval
  p_recommendations :: pyval

definition default_params :: "pyval \<Rightarrow> pyval \<Rightarrow> pyval \<Rightarrow> pyval \<Rightarrow> pyval \<Rightarrow> alert_params" where
  "default_params alert_type severity val date anomaly_score =
     \<lparr>p_alert_type = alert_type, p_severity = severity, p_value = val, p_date = date,
      p_anomaly_score = anomaly_score, p_location = PStr ''Uruguay'',
      p_metric = PStr ''temperature'', p_description = PNone, p_ai_analysis = PNone,
      p_recommendations = PNone\<rparr>"

text \<open>
  \<open>CyodaAlertClient.create_alert\<close>. It returns the specification and the state it leaves,
  which is the state it found: the body assigns to locals only and calls nothing but the
  clock.
\<close>

definition create_alert :: "world \<Rightarrow> alert_params \<Rightarrow> pyval \<times> world" where
  "create_alert w p =
     (let entity_data =
            [(''alert_type'', p_alert_type p),
             (''severity'', p_severity p),
             (''value'', p_value p),
             (''date'', p_date p),
             (''anomaly_score'', p_anomaly_score p),
             (''location'', p_location p),
             (''metric'', p_metric p),
             (''status'', PStr ''active''),
             (''created_at'', PStr (utcnow w)),
             (''acknowledged'', PBool False),
             (''resolved'', PBool False)];
          entity_data =
            (if truthy (p_description p)
             then dict_set entity_data ''description'' (p_description p) else entity_data);
          entity_data =
            (if truthy (p_ai_analysis p)
             then dict_set entity_data ''ai_analysis'' (p_ai_analysis p) else entity_data);
          entity_data =
            (if truthy (p_recommendations p)
             then dict_set entity_data ''recommendations'' (p_recommendations p)
             else entity_data)
      in (PDict [(''entity_model'', PStr ENTITY_MODEL),
                 (''entity_version'', PStr ENTITY_VERSION),
                 (''entity_data'', PDict entity_data)], w))"

text \<open>\<open>CyodaAlertClient.list_all_alerts\<close>.\<close>

definition list_all_alerts :: pyval where
  "list_all_alerts =
     PDict [(''entity_model'', PStr ENTITY_MODEL), (''entity_version'', PStr ENTITY_VERSION)]"

text \<open>
  \<open>CyodaAlertClient.search_alerts\<close>. The string filters are tested for truthiness,
  \<open>min_anomaly_score\<close> for \<open>is not None\<close>.
\<close>

definition search_alerts ::
  "pyval \<Rightarrow> pyval \<Rightarrow> pyval \<Rightarrow> pyval \<Rightarrow> pyval \<Rightarrow> pyval \<Rightarrow> pyval" where
  "search_alerts status severity alert_type min_anomaly_score date_from date_to =
     (let conditions = [];
          conditions =
            (if truthy status
             then conditions @ [PDict [(''type'', PStr ''simple''),
                                       (''jsonPath'', PStr ''$.status''),
                                       (''operatorType'', PStr ''EQUALS''),
                                       (''value'', status)]]
             else conditions);
          conditions =
            (if truthy severity
             then conditions @ [PDict [(''type'', PStr ''simple''),
                                       (''jsonPath'', PStr ''$.severity''),
                                       (''operatorType'', PStr ''EQUALS''),
                                       (''value'', severity)]]
             else conditions);
          conditions =
            (if truthy alert_type
             then conditions @ [PDict [(''type'', PStr ''simple''),
                                       (''jsonPath'', PStr ''$.alert_type''),
                                       (''operatorType'', PStr ''EQUALS''),
                                       (''value'', alert_type)]]
             else conditions);
          conditions =
            (if min_anomaly_score \<noteq> PNone
             then conditions @ [PDict [(''type'', PStr ''simple''),
                                       (''jsonPath'', PStr ''$.anomaly_score''),
                                       (''operatorType'', PStr ''GREATER_THAN''),
                                       (''value'', min_anomaly_score)]]
             else conditions);
          conditions =
            (if truthy date_from
             then conditions @ [PDict [(''type'', PStr ''simple''),
                                       (''jsonPath'', PStr ''$.date''),
                                       (''operatorType'', PStr ''GREATER_THAN''),
                                       (''value'', date_from)]]
             else conditions);
          conditions =
            (if truthy date_to
             then conditions @ [PDict [(''type'', PStr ''simple''),
                                       (''jsonPath'', PStr ''$.date''),
                                       (''operatorType'', PStr ''LESS_THAN''),
                                       (''value'', date_to)]]
             else conditions);
          search_conditions =
            (if length conditions = 0 then PDict []
             else if length conditions = 1 then conditions ! 0
             else PDict [(''type'', PStr ''group''),
                         (''operator'', PStr ''AND''),
                         (''conditions'', PList conditions)])
      in PDict [(''entity_model'', PStr ENTITY_MODEL),
                (''entity_version'', PStr ENTITY_VERSION),
                (''search_conditions'', search_conditions)])"

text \<open>
  Vocabulary for stating what \<open>search_alerts\<close> builds: one simple condition, and the
  conditions of the filters that are in force, in the order the source tests them.
\<close>

definition simple_condition :: "string \<Rightarrow> string \<Rightarrow> pyval \<Rightarrow> pyval" where
  "simple_condition path operator v =
     PDict [(''type'', PStr ''simple''), (''jsonPath'', PStr path),
            (''operatorType'', PStr operator), (''value'', v)]"

definition supplied_conditions ::
  "pyval \<Rightarrow> pyval \<Rightarrow> pyval \<Rightarrow> pyval \<Rightarrow> pyval \<Rightarrow> pyval \<Rightarrow> pyval list" where
  "supplied_conditions status severity alert_type min_anomaly_score date_from date_to =
     map snd (filter fst
       [(truthy status, simple_condition ''$.status'' ''EQUALS'' status),
        (truthy severity, simple_condition ''$.severity'' ''EQUALS'' severity),
        (truthy alert_type, simple_condition ''$.alert_type'' ''EQUALS'' alert_type),
        (min_anomaly_score \<noteq> PNone,
           simple_condition ''$.anomaly_score'' ''GREATER_THAN'' min_anomaly_score),
        (truthy date_from, simple_condition ''$.date'' ''GREATER_THAN'' date_from),
        (truthy date_to, simple_condition ''$.date'' ''LESS_THAN'' date_to)])"

section \<open>The alert-list route (backend/api/alert\_routes.py)\<close>

text \<open>Exceptions are values; a function that can raise returns \<open>error + 'a\<close>.\<close>

datatype error =
    ValueError
  | KeyError
  | TypeError
  | AttributeError
  | DataError
  | HTTPException
  | LibraryError

datatype http_method = GET | POST

text \<open>
  A request: its method and what \<open>request.get_json()\<close> gives, the parsed body or the
  abort Flask raises on a body it cannot read.
\<close>

record request =
  req_method :: http_method
  req_json :: "error + pyval"

text \<open>\<open>x in s\<close> on strings: \<open>x\<close> occurs in \<open>s\<close> as a contiguous run.\<close>

fun is_substring :: "string \<Rightarrow> string \<Rightarrow> bool" where
  "is_substring x [] = (x = [])"
| "is_substring x (c # cs) = (take (length x) (c # cs) = x \<or> is_substring x cs)"

text \<open>\<open>k in data\<close> for a string \<open>k\<close>: keys of a dict, elements of a list, substring of a string.\<close>

definition py_contains :: "string \<Rightarrow> pyval \<Rightarrow> error + bool" where
  "py_contains k data =
     (case data of
        PDict kvs \<Rightarrow> Inr (k \<in> set (map fst kvs))
      | PList xs \<Rightarrow> Inr (PStr k \<in> set xs)
      | PStr s \<Rightarrow> Inr (is_substring k s)
      | _ \<Rightarrow> Inl TypeError)"

text \<open>\<open>data[k]\<close> for a string \<open>k\<close>: only a dictionary can answer.\<close>

definition subscript :: "pyval \<Rightarrow> string \<Rightarrow> error + pyval" where
  "subscript data k =
     (case data of
        PDict kvs \<Rightarrow> (case map_of kvs k of None \<Rightarrow> Inl KeyError | Some v \<Rightarrow> Inr v)
      | _ \<Rightarrow> Inl TypeError)"

text \<open>\<open>for entity in x\<close>: the elements of a list, the keys of a dict, the characters of a string.\<close>

definition py_iter :: "pyval \<Rightarrow> error + pyval list" where
  "py_iter x =
     (case x of
        PList xs \<Rightarrow> Inr xs
      | PDict kvs \<Rightarrow> Inr (map (\<lambda>kv. PStr (fst kv)) kvs)
      | PStr s \<Rightarrow> Inr (map (\<lambda>c. PStr [c]) s)
      | _ \<Rightarrow> Inl TypeError)"

text \<open>
  The body of the loop in \<open>list_alerts\<close>, for one entity: \<open>None\<close> when the entity is not
  a dict and is skipped. In the wrapper format the display
  \<open>{'technical_id': entity_meta['id'], **entity_data}\<close> is built left to right.
\<close>

definition normalize_entity :: "pyval \<Rightarrow> error + pyval option" where
  "normalize_entity entity =
     (case entity of
        PDict e \<Rightarrow>
          (case map_of e ''data'' of
             None \<Rightarrow> Inr (Some entity)
           | Some d \<Rightarrow>
               (case d of
                  PDict dd \<Rightarrow>
                    if map_of dd ''type'' = Some (PStr ''ENTITY'') then
                      (case subscript d ''data'' of
                         Inl err \<Rightarrow> Inl err
                       | Inr entity_data \<Rightarrow>
                           (case subscript d ''meta'' of
                              Inl err \<Rightarrow> Inl err
                            | Inr entity_meta \<Rightarrow>
                                (case subscript entity_meta ''id'' of
                                   Inl err \<Rightarrow> Inl err
                                 | Inr tid \<Rightarrow>
                                     (case entity_data of
                                        PDict ed \<Rightarrow>
                                          Inr (Some (PDict
                                            (fold (\<lambda>kv acc. dict_set acc (fst kv) (snd kv)) ed
                                               [(''technical_id'', tid)])))
                                      | _ \<Rightarrow> Inl TypeError))))
                    else Inr (Some entity)
                | _ \<Rightarrow> Inl AttributeError))
      | _ \<Rightarrow> Inr None)"

fun normalize_alerts :: "pyval list \<Rightarrow> error + pyval list" where
  "normalize_alerts [] = Inr []"
| "normalize_alerts (entity # rest) =
     (case normalize_entity entity of
        Inl err \<Rightarrow> Inl err
      | Inr a \<Rightarrow>
          (case normalize_alerts rest of
             Inl err \<Rightarrow> Inl err
           | Inr alerts \<Rightarrow> Inr ((case a of None \<Rightarrow> [] | Some alert \<Rightarrow> [alert]) @ alerts)))"

text \<open>Decimal digits of a natural number, for \<open>f'Cached {len(alerts)} alerts'\<close>.\<close>

fun str_nat :: "nat \<Rightarrow> string" where
  "str_nat n =
     (if n < 10 then [char_of (48 + n)]
      else str_nat (n div 10) @ [char_of (48 + n mod 10)])"

declare str_nat.simps [simp del]

text \<open>The cached list as a list: empty while the attribute does not exist.\<close>

definition the_cache :: "world \<Rightarrow> pyval list" where
  "the_cache w = (case cached_alerts w of None \<Rightarrow> [] | Some alerts \<Rightarrow> alerts)"

text \<open>
  The part of \<open>list_alerts\<close> below the POST block, reached by a GET and by a POST that
  carries no alerts. \<open>list_all_alerts\<close> cannot raise, so the \<open>except\<close> arm is dead.
\<close>

definition get_response :: "world \<Rightarrow> (error + nat \<times> pyval) \<times> world" where
  "get_response w =
     (if the_cache w \<noteq> [] then
        (Inr (200, PDict [(''success'', PBool True),
                          (''alerts'', PList (the_cache w)),
                          (''count'', PInt (int (length (the_cache w)))),
                          (''cached'', PBool True)]), w)
      else
        (Inr (200, PDict [(''success'', PBool True),
                          (''mcp_spec'', list_all_alerts),
                          (''message'', PStr (''No cached alerts. Execute MCP tool and ''
                                               @ ''POST results to /api/alerts/list'')),
                          (''alerts'', PList []),
                          (''cached'', PBool False)]), w))"

text \<open>
  \<open>list_alerts\<close>: the answer (status code and JSON body, or the exception that escapes
  the handler) and the state afterwards. Nothing in the handler catches the exceptions
  of the POST block, so they escape with the cache as it was.
\<close>

definition list_alerts :: "world \<Rightarrow> request \<Rightarrow> (error + nat \<times> pyval) \<times> world" where
  "list_alerts w0 req =
     (let w = (case cached_alerts w0 of
                 None \<Rightarrow> w0\<lparr>cached_alerts := Some []\<rparr>
               | Some _ \<Rightarrow> w0)
      in if req_method req = POST then
           (case req_json req of
              Inl err \<Rightarrow> (Inl err, w)
            | Inr data \<Rightarrow>
                if \<not> truthy data then get_response w
                else
                  (case py_contains ''alerts'' data of
                     Inl err \<Rightarrow> (Inl err, w)
                   | Inr False \<Rightarrow> get_response w
                   | Inr True \<Rightarrow>
                       (case subscript data ''alerts'' of
                          Inl err \<Rightarrow> (Inl err, w)
                        | Inr field \<Rightarrow>
                            (case py_iter field of
                               Inl err \<Rightarrow> (Inl err, w)
                             | Inr entities \<Rightarrow>
                                 (case normalize_alerts entities of
                                    Inl err \<Rightarrow> (Inl err, w)
                                  | Inr alerts \<Rightarrow>
                                      (Inr (200,
                                         PDict [(''success'', PBool True),
                                                (''message'', PStr (''Cached ''
                                                   @ str_nat (length alerts) @ '' alerts'')),
                                                (''count'', PInt (int (length alerts)))]),
                                       w\<lparr>cached_alerts := Some alerts\<rparr>))))))
         else get_response w)"

section \<open>Data frames\<close>

text \<open>
  A pandas DataFrame is a list of named, typed columns of one length: float64 columns
  (NaN for a missing number), boolean columns, datetime columns (NaT for a missing time)
  and object columns of strings. Assigning \<open>df[name] = column\<close> is \<open>dict_set\<close>.
\<close>

datatype timestamp = NaT | Timestamp int

datatype column =
    NumCol "pyfloat list"
  | BoolCol "bool list"
  | DateCol "timestamp list"
  | StrCol "string list"

datatype cell = CNum pyfloat | CBool bool | CDate timestamp | CStr string

type_synonym dataframe = "(string \<times> column) list"

type_synonym features = "(string \<times> cell list) list"

fun col_cells :: "column \<Rightarrow> cell list" where
  "col_cells (NumCol xs) = map CNum xs"
| "col_cells (BoolCol bs) = map CBool bs"
| "col_cells (DateCol ts) = map CDate ts"
| "col_cells (StrCol ss) = map CStr ss"

definition col_len :: "column \<Rightarrow> nat" where
  "col_len c = length (col_cells c)"

text \<open>\<open>len(df)\<close>, and the invariant that every column has that length.\<close>

definition df_len :: "dataframe \<Rightarrow> nat" where
  "df_len df = (case df of [] \<Rightarrow> 0 | nc # _ \<Rightarrow> col_len (snd nc))"

definition wf_df :: "dataframe \<Rightarrow> bool" where
  "wf_df df = (distinct (map fst df) \<and> list_all (\<lambda>nc. col_len (snd nc) = df_len df) df)"

text \<open>\<open>df.iterrows()\<close>: row \<open>i\<close> holds cell \<open>i\<close> of every column, under the column's name.\<close>

definition row_at :: "dataframe \<Rightarrow> nat \<Rightarrow> (string \<times> cell) list" where
  "row_at df i = map (\<lambda>nc. (fst nc, col_cells (snd nc) ! i)) df"

definition iterrows :: "dataframe \<Rightarrow> (string \<times> cell) list list" where
  "iterrows df = map (row_at df) [0..<df_len df]"

text \<open>
  What the code calls in pandas and in Python's string formatting without defining it,
  taken as parameters: \<open>pd.to_datetime\<close> on a column (it may raise), \<open>.dt.dayofyear\<close>,
  \<open>.dt.month\<close> (NaN on NaT), \<open>Timestamp.isoformat\<close>, \<open>float\<close> on a string, \<open>str.title\<close>
  and the format \<open>{value:.1f}\<close>; and the statistics of a column,
  \<open>Series.rolling(window=w).mean()\<close>, \<open>.std()\<close> and \<open>Series.diff()\<close>, each as the function
  from the row number to the value there, so that it has one value per row. Their
  floating-point arithmetic is pandas' own and is not modelled.
  \<open>scan_recommendations\<close> is the line scan of \<open>_extract_recommendations_from_report\<close>
  over the generated report, which no theorem below depends on.
\<close>

record library =
  to_datetime :: "column \<Rightarrow> error + timestamp list"
  dayofyear :: "timestamp \<Rightarrow> pyfloat"
  month_of :: "timestamp \<Rightarrow> pyfloat"
  isoformat :: "timestamp \<Rightarrow> string"
  parse_float :: "string \<Rightarrow> error + pyfloat"
  str_title :: "string \<Rightarrow> string"
  format_1f :: "pyfloat \<Rightarrow> string"
  scan_recommendations :: "string \<Rightarrow> string list"
  rolling_mean :: "nat \<Rightarrow> column \<Rightarrow> nat \<Rightarrow> pyfloat"
  rolling_std :: "nat \<Rightarrow> column \<Rightarrow> nat \<Rightarrow> pyfloat"
  series_diff :: "column \<Rightarrow> nat \<Rightarrow> cell"

subsection \<open>Rolling statistics, differences and fills\<close>

text \<open>
  \<open>rolling\<close> coerces the column to float64 before it computes: numbers and booleans pass,
  a datetime column and a string that is not a number make it raise DataError.
\<close>

definition rolling_dtype_ok :: "library \<Rightarrow> column \<Rightarrow> bool" where
  "rolling_dtype_ok lib col =
     (case col of
        NumCol xs \<Rightarrow> True
      | BoolCol bs \<Rightarrow> True
      | DateCol ts \<Rightarrow> False
      | StrCol ss \<Rightarrow>
          list_all (\<lambda>s. case parse_float lib s of Inl err \<Rightarrow> False | Inr x \<Rightarrow> True) ss)"

text \<open>One rolling statistic of the column, as a column of the feature matrix.\<close>

definition rolling_column ::
  "library \<Rightarrow> (nat \<Rightarrow> column \<Rightarrow> nat \<Rightarrow> pyfloat) \<Rightarrow> nat \<Rightarrow> column \<Rightarrow> error + cell list" where
  "rolling_column lib statistic w col =
     (if \<not> rolling_dtype_ok lib col then Inl DataError
      else Inr (map (\<lambda>i. CNum (statistic w col i)) [0..<col_len col]))"

text \<open>
  \<open>Series.diff()\<close>. On a column of strings it subtracts strings, a TypeError, as soon as
  there are two rows; with fewer there is nothing to subtract and the result is NaN.
\<close>

definition diff_column :: "library \<Rightarrow> column \<Rightarrow> error + cell list" where
  "diff_column lib col =
     (case col of
        StrCol ss \<Rightarrow>
          if 2 \<le> length ss then Inl TypeError else Inr (map (\<lambda>s. CNum None) ss)
      | _ \<Rightarrow> Inr (map (series_diff lib col) [0..<col_len col]))"

text \<open>A missing entry: NaN or NaT.\<close>

definition is_na :: "cell \<Rightarrow> bool" where
  "is_na c = (case c of CNum x \<Rightarrow> x = None | CDate t \<Rightarrow> t = NaT | _ \<Rightarrow> False)"

text \<open>\<open>bfill\<close>: a missing entry takes the next entry below it that is not missing, if there is one.\<close>

fun bfill :: "cell list \<Rightarrow> cell list" where
  "bfill [] = []"
| "bfill (x # xs) =
     (if is_na x then (case bfill xs of [] \<Rightarrow> [x] | y # ys \<Rightarrow> y # y # ys)
      else x # bfill xs)"

text \<open>\<open>ffill\<close>: a missing entry takes the last entry above it that is not missing, if there is one.\<close>

fun ffill_from :: "cell option \<Rightarrow> cell list \<Rightarrow> cell list" where
  "ffill_from prev [] = []"
| "ffill_from prev (x # xs) =
     (if is_na x then (case prev of None \<Rightarrow> x | Some v \<Rightarrow> v) # ffill_from prev xs
      else x # ffill_from (Some x) xs)"

definition ffill :: "cell list \<Rightarrow> cell list" where
  "ffill xs = ffill_from None xs"

definition fillna0 :: "cell list \<Rightarrow> cell list" where
  "fillna0 xs = map (\<lambda>x. if is_na x then CNum (Some 0) else x) xs"

text \<open>\<open>features.bfill().ffill()\<close> and \<open>fillna(0)\<close> work column by column.\<close>

definition fill_features :: "features \<Rightarrow> features" where
  "fill_features X = map (\<lambda>nc. (fst nc, fillna0 (ffill (bfill (snd nc))))) X"

section \<open>The anomaly detector (src/models/anomaly\_detector.py)\<close>

text \<open>
  The loop \<open>for window in [7, 14, 30]\<close> of \<open>prepare_features\<close>: the mean, then the
  standard deviation, each assigned under its name; the first exception ends it.
\<close>

fun rolling_features :: "library \<Rightarrow> column \<Rightarrow> nat list \<Rightarrow> features \<Rightarrow> error + features" where
  "rolling_features lib col [] X = Inr X"
| "rolling_features lib col (w # ws) X =
     (case rolling_column lib (rolling_mean lib) w col of
        Inl err \<Rightarrow> Inl err
      | Inr m \<Rightarrow>
          (case rolling_column lib (rolling_std lib) w col of
             Inl err \<Rightarrow> Inl err
           | Inr s \<Rightarrow>
               rolling_features lib col ws
                 (dict_set (dict_set X (''rolling_mean_'' @ str_nat w) m)
                    (''rolling_std_'' @ str_nat w) s)))"

text \<open>
  \<open>ClimateAnomalyDetector.prepare_features\<close>. It returns the frame as the call leaves it
  (\<open>df['date'] = pd.to_datetime(df['date'])\<close> writes into the caller's frame) and the feature
  matrix. A missing value column raises KeyError at \<open>df[value_column]\<close>; a converted date
  column of another length cannot be assigned.
\<close>

definition prepare_features ::
  "library \<Rightarrow> dataframe \<Rightarrow> string \<Rightarrow> error + dataframe \<times> features" where
  "prepare_features lib df value_column =
     (case map_of df value_column of
        None \<Rightarrow> Inl KeyError
      | Some col \<Rightarrow>
          (let X = [(''value'', col_cells col)]
           in case rolling_features lib col [7, 14, 30] X of
                Inl err \<Rightarrow> Inl err
              | Inr X \<Rightarrow>
                  (case diff_column lib col of
                     Inl err \<Rightarrow> Inl err
                   | Inr change \<Rightarrow>
                       (let X = dict_set X ''daily_change'' change
                        in case map_of df ''date'' of
                             None \<Rightarrow> Inr (df, fill_features X)
                           | Some dates \<Rightarrow>
                               (case to_datetime lib dates of
                                  Inl err \<Rightarrow> Inl err
                                | Inr ts \<Rightarrow>
                                    if length ts \<noteq> df_len df then Inl ValueError
                                    else
                                      (let df' = dict_set df ''date'' (DateCol ts);
                                           X = dict_set X ''day_of_year''
                                                 (map (\<lambda>t. CNum (dayofyear lib t)) ts);
                                           X = dict_set X ''month''
                                                 (map (\<lambda>t. CNum (month_of lib t)) ts)
                                       in Inr (df', fill_features X)))))))"

text \<open>
  The fitted scaler and Isolation Forest, as abstract functions that may raise:
  \<open>scaler.transform\<close>, \<open>model.predict\<close> (-1 for an anomaly, 1 for a normal point) and
  \<open>model.score_samples\<close> (the lower, the more anomalous).
\<close>

record 'x detector =
  fitted :: bool
  scaler_transform :: "features \<Rightarrow> error + 'x"
  model_predict :: "'x \<Rightarrow> error + int list"
  model_score_samples :: "'x \<Rightarrow> error + real list"

text \<open>
  \<open>ClimateAnomalyDetector.detect\<close>: the result (or the exception) and the caller's frame
  after the call. A column of another length than the frame cannot be assigned.
\<close>

definition detect ::
  "library \<Rightarrow> 'x detector \<Rightarrow> dataframe \<Rightarrow> string \<Rightarrow> (error + dataframe) \<times> dataframe" where
  "detect lib d df value_column =
     (if \<not> fitted d then (Inl ValueError, df)
      else
        (case prepare_features lib df value_column of
           Inl err \<Rightarrow> (Inl err, df)
         | Inr (df', X) \<Rightarrow>
             (case scaler_transform d X of
                Inl err \<Rightarrow> (Inl err, df')
              | Inr X_scaled \<Rightarrow>
                  (case model_predict d X_scaled of
                     Inl err \<Rightarrow> (Inl err, df')
                   | Inr predictions \<Rightarrow>
                       (case model_score_samples d X_scaled of
                          Inl err \<Rightarrow> (Inl err, df')
                        | Inr scores \<Rightarrow>
                            if length predictions \<noteq> df_len df' then (Inl ValueError, df')
                            else if length scores \<noteq> df_len df' then (Inl ValueError, df')
                            else
                              (let result_df = df';
                                   result_df = dict_set result_df ''is_anomaly''
                                     (BoolCol (map (\<lambda>p. p = - 1) predictions));
                                   result_df = dict_set result_df ''anomaly_score''
                                     (NumCol (map (\<lambda>s. Some (- s)) scores))
                               in (Inr result_df, df')))))))"

section \<open>The alert service (src/services/alert\_service.py)\<close>

text \<open>The Gemini client, as the one call the service makes: it returns the report or raises.\<close>

record gemini =
  generate_anomaly_report :: "pyval \<Rightarrow> error + pyval"

record 'x service =
  anomaly_detector :: "'x detector option"
  gemini_client :: "gemini option"
  cyoda_client :: "unit option"

text \<open>\<open>_get_default_recommendations\<close>.\<close>

definition get_default_recommendations :: "string \<Rightarrow> string \<Rightarrow> string list" where
  "get_default_recommendations alert_type severity =
     (let recs = [];
          recs = (if severity \<in> set [''critical'', ''high'']
                  then recs @ [''Issue public advisory immediately'',
                               ''Activate emergency response protocols'']
                  else recs)
      in if alert_type = ''heat_wave'' then
           recs @ [''Increase water reserves monitoring'',
                   ''Advise vulnerable populations to stay indoors'',
                   ''Monitor energy grid for increased cooling demand'']
         else if alert_type = ''extreme_precipitation'' then
           recs @ [''Check drainage systems and flood defenses'',
                   ''Issue flood warnings for low-lying areas'',
                   ''Monitor river levels closely'']
         else if alert_type \<in> set [''cold_snap'', ''freeze_event''] then
           recs @ [''Protect sensitive crops and livestock'',
                   ''Monitor heating fuel supplies'',
                   ''Check on vulnerable populations'']
         else if alert_type = ''drought_indicator'' then
           recs @ [''Implement water conservation measures'',
                   ''Monitor agricultural impacts'',
                   ''Review water allocation policies'']
         else recs)"

text \<open>
  \<open>_extract_recommendations_from_report\<close>: the scanned lines, the defaults when the scan
  finds none, at most five.
\<close>

definition extract_recommendations_from_report ::
  "library \<Rightarrow> string \<Rightarrow> string \<Rightarrow> string \<Rightarrow> string list" where
  "extract_recommendations_from_report lib report alert_type severity =
     (let recommendations = scan_recommendations lib report;
          recommendations =
            (if recommendations = [] then get_default_recommendations alert_type severity
             else recommendations)
      in take 5 recommendations)"

text \<open>\<open>_generate_basic_description\<close>; the degree sign is the character U+00B0.\<close>

definition alert_names :: "(string \<times> string) list" where
  "alert_names =
     [(''heat_wave'', ''Heat Wave''),
      (''cold_snap'', ''Cold Snap''),
      (''freeze_event'', ''Freeze Event''),
      (''extreme_precipitation'', ''Extreme Precipitation''),
      (''drought_indicator'', ''Drought Indicator''),
      (''temperature_anomaly'', ''Temperature Anomaly''),
      (''precipitation_anomaly'', ''Precipitation Anomaly''),
      (''climate_anomaly'', ''Climate Anomaly'')]"

definition generate_basic_description ::
  "library \<Rightarrow> string \<Rightarrow> string \<Rightarrow> pyfloat \<Rightarrow> string \<Rightarrow> string" where
  "generate_basic_description lib alert_type severity val metric =
     (let alert_name = (case map_of alert_names alert_type of
                          None \<Rightarrow> ''Climate Alert'' | Some name \<Rightarrow> name);
          unit = (if metric = ''temperature'' then [CHR 0xB0, CHR ''C''] else ''mm'')
      in str_title lib severity @ '' '' @ alert_name @ '' detected: ''
           @ format_1f lib val @ unit)"

text \<open>
  \<open>_generate_ai_analysis\<close>: every exception inside is caught and answered with \<open>{}\<close>,
  also the AttributeError of \<open>report.split\<close> on a report that is not a string.
  \<open>_generate_summary\<close> is \<open>_generate_basic_description\<close>.
\<close>

definition generate_ai_analysis ::
  "library \<Rightarrow> gemini option \<Rightarrow> string \<Rightarrow> string \<Rightarrow> pyfloat \<Rightarrow> string \<Rightarrow> pyfloat \<Rightarrow> string
     \<Rightarrow> pyval" where
  "generate_ai_analysis lib client alert_type severity val metric anomaly_score date =
     (case client of
        None \<Rightarrow> PDict []
      | Some g \<Rightarrow>
          (let anomaly_data =
                 PList [PDict [(''date'', PStr date),
                               (''value'', PFloat val),
                               (''anomaly_score'', PFloat anomaly_score),
                               (''alert_type'', PStr alert_type),
                               (''severity'', PStr severity),
                               (''metric'', PStr metric)]]
           in case generate_anomaly_report g anomaly_data of
                Inl err \<Rightarrow> PDict []
              | Inr report \<Rightarrow>
                  (case report of
                     PStr text \<Rightarrow>
                       (let recommendations =
                              extract_recommendations_from_report lib text alert_type severity;
                            summary =
                              generate_basic_description lib alert_type severity val metric
                        in PDict [(''analysis'',
                                     PDict [(''full_report'', report),
                                            (''alert_type'', PStr alert_type),
                                            (''severity'', PStr severity),
                                            (''confidence'', PFloat anomaly_score)]),
                                  (''recommendations'', PList (map PStr recommendations)),
                                  (''summary'', PStr summary)])
                   | _ \<Rightarrow> PDict [])))"

text \<open>
  Reading a row in the loop of \<open>detect_and_create_alerts\<close>:
  \<open>row.get('date', datetime.utcnow().isoformat())\<close> followed by the \<open>isinstance\<close> test,
  and \<open>float(row[column])\<close>.
\<close>

definition row_date :: "library \<Rightarrow> world \<Rightarrow> (string \<times> cell) list \<Rightarrow> error + string" where
  "row_date lib w row =
     (case map_of row ''date'' of
        None \<Rightarrow> Inr (utcnow w)
      | Some date_raw \<Rightarrow>
          (case date_raw of
             CStr s \<Rightarrow> Inr s
           | CDate t \<Rightarrow> Inr (isoformat lib t)
           | _ \<Rightarrow> Inl AttributeError))"

definition row_float :: "library \<Rightarrow> (string \<times> cell) list \<Rightarrow> string \<Rightarrow> error + pyfloat" where
  "row_float lib row k =
     (case map_of row k of
        None \<Rightarrow> Inl KeyError
      | Some c \<Rightarrow>
          (case c of
             CNum x \<Rightarrow> Inr x
           | CBool b \<Rightarrow> Inr (Some (if b then 1 else 0))
           | CStr s \<Rightarrow> parse_float lib s
           | CDate t \<Rightarrow> Inl TypeError))"

text \<open>\<open>x == True\<close> on a cell.\<close>

definition is_true :: "cell \<Rightarrow> bool" where
  "is_true c = (case c of CBool b \<Rightarrow> b | CNum x \<Rightarrow> x = Some 1 | _ \<Rightarrow> False)"

definition is_anomaly_row :: "(string \<times> cell) list \<Rightarrow> bool" where
  "is_anomaly_row row = (case map_of row ''is_anomaly'' of None \<Rightarrow> False | Some c \<Rightarrow> is_true c)"

text \<open>
  The body of the loop, for one row of the anomalies. \<open>create_alert\<close> is called with the
  keyword arguments of \<open>alert_params\<close>; it leaves the state as it is, so every iteration
  sees the state \<open>w\<close>. \<open>_generate_ai_analysis\<close> always returns a dictionary, so the
  \<open>except\<close> arm (the case of any other value) is not reached.
\<close>

definition alert_for_row ::
  "library \<Rightarrow> 'x service \<Rightarrow> world \<Rightarrow> string \<Rightarrow> string \<Rightarrow> bool \<Rightarrow> (string \<times> cell) list
     \<Rightarrow> error + pyval" where
  "alert_for_row lib svc w value_column metric use_ai_analysis row =
     (case row_date lib w row of
        Inl err \<Rightarrow> Inl err
      | Inr date \<Rightarrow>
          (case row_float lib row value_column of
             Inl err \<Rightarrow> Inl err
           | Inr val \<Rightarrow>
               (case row_float lib row ''anomaly_score'' of
                  Inl err \<Rightarrow> Inl err
                | Inr anomaly_score \<Rightarrow>
                    (let severity = classify_severity anomaly_score val metric;
                         alert_type = determine_alert_type val metric (None :: unit option);
                         alert_params =
                           \<lparr>p_alert_type = PStr alert_type,
                            p_severity = PStr severity,
                            p_value = PFloat val,
                            p_date = PStr date,
                            p_anomaly_score = PFloat anomaly_score,
                            p_location = PStr ''Uruguay'',
                            p_metric = PStr metric,
                            p_description = PNone,
                            p_ai_analysis = PNone,
                            p_recommendations = PNone\<rparr>;
                         basic = PStr (generate_basic_description lib alert_type severity
                                         val metric);
                         alert_params =
                           (if use_ai_analysis \<and> gemini_client svc \<noteq> None then
                              (case generate_ai_analysis lib (gemini_client svc) alert_type
                                      severity val metric anomaly_score date of
                                 PDict ai_analysis \<Rightarrow>
                                   alert_params
                                     \<lparr>p_ai_analysis :=
                                        (case map_of ai_analysis ''analysis'' of
                                           None \<Rightarrow> PDict [] | Some v \<Rightarrow> v),
                                      p_recommendations :=
                                        (case map_of ai_analysis ''recommendations'' of
                                           None \<Rightarrow> PList [] | Some v \<Rightarrow> v),
                                      p_description :=
                                        (case map_of ai_analysis ''summary'' of
                                           None \<Rightarrow> PStr [] | Some v \<Rightarrow> v)\<rparr>
                               | _ \<Rightarrow> alert_params\<lparr>p_description := basic\<rparr>)
                            else alert_params\<lparr>p_description := basic\<rparr>)
                     in Inr (fst (create_alert w alert_params))))))"

text \<open>The \<open>for\<close> loop: the specifications in row order, or the first exception.\<close>

fun for_rows :: "('r \<Rightarrow> error + 'a) \<Rightarrow> 'r list \<Rightarrow> error + 'a list" where
  "for_rows body [] = Inr []"
| "for_rows body (row # rows) =
     (case body row of
        Inl err \<Rightarrow> Inl err
      | Inr alert_spec \<Rightarrow>
          (case for_rows body rows of
             Inl err \<Rightarrow> Inl err
           | Inr alerts \<Rightarrow> Inr (alert_spec # alerts)))"

text \<open>
  \<open>ClimateAlertService.detect_and_create_alerts\<close>.
  \<open>results[results['is_anomaly'] == True]\<close> keeps the rows whose flag is true, in order.
\<close>

definition detect_and_create_alerts ::
  "library \<Rightarrow> 'x service \<Rightarrow> world \<Rightarrow> dataframe \<Rightarrow> string \<Rightarrow> string \<Rightarrow> bool
     \<Rightarrow> error + pyval list" where
  "detect_and_create_alerts lib svc w climate_data value_column metric use_ai_analysis =
     (case anomaly_detector svc of
        None \<Rightarrow> Inl ValueError
      | Some d \<Rightarrow>
          (case cyoda_client svc of
             None \<Rightarrow> Inl ValueError
           | Some client \<Rightarrow>
               (case fst (detect lib d climate_data value_column) of
                  Inl err \<Rightarrow> Inl err
                | Inr results \<Rightarrow>
                    (case map_of results ''is_anomaly'' of
                       None \<Rightarrow> Inl KeyError
                     | Some flags \<Rightarrow>
                         (let anomalies = filter is_anomaly_row (iterrows results)
                          in for_rows
                               (alert_for_row lib svc w value_column metric use_ai_analysis)
                               anomalies)))))"

text \<open>Reading a field of the entity\_data of a specification.\<close>

definition spec_field :: "pyval \<Rightarrow> string \<Rightarrow> pyval option" where
  "spec_field alert_spec k =
     (case dict_get alert_spec ''entity_data'' of
        None \<Rightarrow> None
      | Some entity_data \<Rightarrow> dict_get entity_data k)"

definition newly_created :: "pyval \<Rightarrow> bool" where
  "newly_created alert_spec =
     (spec_field alert_spec ''status'' = Some (PStr ''active'')
      \<and> spec_field alert_spec ''acknowledged'' = Some (PBool False)
      \<and> spec_field alert_spec ''resolved'' = Some (PBool False))"

text \<open>
  What it means for a specification to come from a row: the row's value and anomaly
  score are read, the alert type and the severity are computed from them for the metric,
  and all four are in the entity\_data.
\<close>

definition alert_matches_row ::
  "library \<Rightarrow> string \<Rightarrow> string \<Rightarrow> (string \<times> cell) list \<Rightarrow> pyval \<Rightarrow> bool" where
  "alert_matches_row lib value_column metric row alert_spec =
     (case row_float lib row value_column of
        Inl err \<Rightarrow> False
      | Inr val \<Rightarrow>
          (case row_float lib row ''anomaly_score'' of
             Inl err \<Rightarrow> False
           | Inr anomaly_score \<Rightarrow>
               spec_field alert_spec ''value'' = Some (PFloat val)
             \<and> spec_field alert_spec ''anomaly_score'' = Some (PFloat anomaly_score)
             \<and> spec_field alert_spec ''alert_type''
                 = Some (PStr (determine_alert_type val metric (None :: unit option)))
             \<and> spec_field alert_spec ''severity''
                 = Some (PStr (classify_severity anomaly_score val metric))))"

text \<open>A value column of numbers or of booleans.\<close>

definition is_numeric :: "column \<Rightarrow> bool" where
  "is_numeric col = (case col of NumCol xs \<Rightarrow> True | BoolCol bs \<Rightarrow> True | _ \<Rightarrow> False)"

text \<open>A column of the feature matrix after the three fills.\<close>

definition filled :: "cell list \<Rightarrow> cell list" where
  "filled xs = fillna0 (ffill (bfill xs))"

section \<open>An instance\<close>

text \<open>
  A library, a detector that flags every value above 35, a service without Gemini and a
  two-day frame, to run the definitions on. The statistics of this library are computed
  exactly over the reals (the mean and the sample standard deviation, \<open>ddof = 1\<close>, of the
  \<open>w\<close> values ending at a row, NaN while fewer than \<open>w\<close> rows are there or one of them is
  NaN; the change from the row before); they stand for the parameters and say nothing
  about pandas' rounding.
\<close>

definition col_floats :: "column \<Rightarrow> pyfloat list" where
  "col_floats col =
     (case col of
        NumCol xs \<Rightarrow> xs
      | BoolCol bs \<Rightarrow> map (\<lambda>b. Some (if b then 1 else 0)) bs
      | _ \<Rightarrow> [])"

definition window :: "nat \<Rightarrow> pyfloat list \<Rightarrow> nat \<Rightarrow> real list option" where
  "window w xs i = (if i + 1 < w then None else those (take w (drop (i + 1 - w) xs)))"

definition exact_mean :: "real list \<Rightarrow> real" where
  "exact_mean xs = sum_list xs / real (length xs)"

definition exact_std :: "real list \<Rightarrow> real" where
  "exact_std xs =
     sqrt (sum_list (map (\<lambda>x. (x - exact_mean xs)\<^sup>2) xs) / (real (length xs) - 1))"

definition exact_change :: "pyfloat list \<Rightarrow> nat \<Rightarrow> pyfloat" where
  "exact_change xs i =
     (if i = 0 then None
      else (case xs ! i of
              None \<Rightarrow> None
            | Some a \<Rightarrow> (case xs ! (i - 1) of None \<Rightarrow> None | Some b \<Rightarrow> Some (a - b))))"

definition example_library :: library where
  "example_library =
     \<lparr>to_datetime = (\<lambda>c. case c of
                        DateCol ts \<Rightarrow> Inr ts
                      | StrCol ss \<Rightarrow> Inr (map (\<lambda>s. Timestamp (int (length s))) ss)
                      | _ \<Rightarrow> Inl TypeError),
      dayofyear = (\<lambda>t. case t of NaT \<Rightarrow> None | Timestamp n \<Rightarrow> Some (real_of_int n)),
      month_of = (\<lambda>t. case t of NaT \<Rightarrow> None | Timestamp n \<Rightarrow> Some 1),
      isoformat = (\<lambda>t. ''2024-01-15T00:00:00''),
      parse_float = (\<lambda>s. Inl ValueError),
      str_title = (\<lambda>s. s),
      format_1f = (\<lambda>x. ''41.0''),
      scan_recommendations = (\<lambda>s. []),
      rolling_mean = (\<lambda>w col i. map_option exact_mean (window w (col_floats col) i)),
      rolling_std = (\<lambda>w col i. if w < 2 then None
                               else map_option exact_std (window w (col_floats col) i)),
      series_diff = (\<lambda>col i. case col of
                       BoolCol bs \<Rightarrow>
                         if i = 0 then CNum None else CBool (bs ! i \<noteq> bs ! (i - 1))
                     | _ \<Rightarrow> CNum (exact_change (col_floats col) i))\<rparr>"

definition example_detector :: "features detector" where
  "example_detector =
     \<lparr>fitted = True,
      scaler_transform = (\<lambda>X. Inr X),
      model_predict = (\<lambda>X. case map_of X ''value'' of
                           None \<Rightarrow> Inl LibraryError
                         | Some vs \<Rightarrow>
                             Inr (map (\<lambda>c. case c of
                                            CNum v \<Rightarrow> if fgt v 35 then - 1 else 1
                                          | _ \<Rightarrow> 1) vs)),
      model_score_samples = (\<lambda>X. case map_of X ''value'' of
                                 None \<Rightarrow> Inl LibraryError
                               | Some vs \<Rightarrow>
                                   Inr (map (\<lambda>c. case c of
                                                  CNum v \<Rightarrow> if fgt v 35 then - 0.8 else - 0.4
                                                | _ \<Rightarrow> - 0.4) vs))\<rparr>"

definition example_service :: "features service" where
  "example_service =
     \<lparr>anomaly_detector = Some example_detector, gemini_client = None,
      cyoda_client = Some ()\<rparr>"

definition example_frame :: dataframe where
  "example_frame =
     [(''date'', StrCol [''2024-01-14'', ''2024-01-15'']),
      (''value'', NumCol [Some 20, Some 41])]"

definition example_world :: world where
  "example_world = \<lparr>utcnow = ''2024-02-01T12:00:00'', cyoda_entities = [], cached_alerts = None\<rparr>"

text \<open>
  What the instance computes, step by step: the frame with its dates converted, the
  feature matrix, the detection result, its one flagged row and the one specification the
  service produces for it (the second day, 41 degrees).
\<close>

definition example_converted :: dataframe where
  "example_converted =
     [(''date'', DateCol [Timestamp 10, Timestamp 10]),
      (''value'', NumCol [Some 20, Some 41])]"

definition example_features :: features where
  "example_features =
     [(''value'', [CNum (Some 20), CNum (Some 41)]),
      (''rolling_mean_7'', [CNum (Some 0), CNum (Some 0)]),
      (''rolling_std_7'', [CNum (Some 0), CNum (Some 0)]),
      (''rolling_mean_14'', [CNum (Some 0), CNum (Some 0)]),
      (''rolling_std_14'', [CNum (Some 0), CNum (Some 0)]),
      (''rolling_mean_30'', [CNum (Some 0), CNum (Some 0)]),
      (''rolling_std_30'', [CNum (Some 0), CNum (Some 0)]),
      (''daily_change'', [CNum (Some 21), CNum (Some 21)]),
      (''day_of_year'', [CNum (Some 10), CNum (Some 10)]),
      (''month'', [CNum (Some 1), CNum (Some 1)])]"

definition example_results :: dataframe where
  "example_results =
     [(''date'', DateCol [Timestamp 10, Timestamp 10]),
      (''value'', NumCol [Some 20, Some 41]),
      (''is_anomaly'', BoolCol [False, True]),
      (''anomaly_score'', NumCol [Some 0.4, Some 0.8])]"

definition example_row :: "(string \<times> cell) list" where
  "example_row =
     [(''date'', CDate (Timestamp 10)), (''value'', CNum (Some 41)),
      (''is_anomaly'', CBool True), (''anomaly_score'', CNum (Some 0.8))]"

definition example_alert :: pyval where
  "example_alert =
     PDict [(''entity_model'', PStr ''climate_alert''), (''entity_version'', PStr ''1''),
            (''entity_data'', PDict
               [(''alert_type'', PStr ''heat_wave''), (''severity'', PStr ''critical''),
                (''value'', PFloat (Some 41)), (''date'', PStr ''2024-01-15T00:00:00''),
                (''anomaly_score'', PFloat (Some 0.8)), (''location'', PStr ''Uruguay''),
                (''metric'', PStr ''temperature''), (''status'', PStr ''active''),
                (''created_at'', PStr ''2024-02-01T12:00:00''),
                (''acknowledged'', PBool False), (''resolved'', PBool False),
                (''description'',
                   PStr (''critical Heat Wave detected: 41.0'' @ [CHR 0xB0, CHR ''C'']))])]"

text \<open>
  An eight-day frame, on which the windows of seven days fill, the frame the service
  would be given when an \<open>is_anomaly\<close> column came with the data, and a frame whose
  value column is text.
\<close>

definition example_week :: dataframe where
  "example_week =
     [(''date'', StrCol [''2024-01-08'', ''2024-01-09'', ''2024-01-10'', ''2024-01-11'',
                        ''2024-01-12'', ''2024-01-13'', ''2024-01-14'', ''2024-01-15'']),
      (''value'', NumCol [Some 23, Some 23, Some 23, Some 20,
                         Some 17, Some 17, Some 17, Some 23])]"

definition example_flagged :: dataframe where
  "example_flagged = [(''value'', NumCol [Some 41]), (''is_anomaly'', NumCol [Some 7])]"

definition example_text :: dataframe where
  "example_text = [(''value'', StrCol [''missing'', ''missing''])]"

section \<open>Classification theorems\<close>

text \<open>
  C1. For real anomaly scores and values, \<open>classify_severity\<close> on metric "temperature" is
  "critical" iff score > 0.9 or value > 40 or value < -10; failing that "high" iff
  score > 0.7 or value > 35 or value < -5; failing that "medium" iff score > 0.5; failing
  that "low". On "precipitation" the value cutoffs are 100 and 50 with no lower bound. On
  any other metric only the score counts, with cutoffs 0.85, 0.7, 0.5. The result is always
  one of low, medium, high, critical.
\<close>

theorem classify_severity_rules:
  fixes s v :: real
  shows "(let t = classify_severity (Some s) (Some v) ''temperature'';
              p = classify_severity (Some s) (Some v) ''precipitation'';
              d = classify_severity (Some s) (Some v) m
          in ((t = ''critical'') = (s > 0.9 \<or> v > 40 \<or> v < -10))
           \<and> ((t = ''high'') = (t \<noteq> ''critical'' \<and> (s > 0.7 \<or> v > 35 \<or> v < -5)))
           \<and> ((t = ''medium'') = (t \<noteq> ''critical'' \<and> t \<noteq> ''high'' \<and> s > 0.5))
           \<and> ((t = ''low'') = (t \<noteq> ''critical'' \<and> t \<noteq> ''high'' \<and> t \<noteq> ''medium''))
           \<and> ((p = ''critical'') = (s > 0.9 \<or> v > 100))
           \<and> ((p = ''high'') = (p \<noteq> ''critical'' \<and> (s > 0.7 \<or> v > 50)))
           \<and> ((p = ''medium'') = (p \<noteq> ''critical'' \<and> p \<noteq> ''high'' \<and> s > 0.5))
           \<and> ((p = ''low'') = (p \<noteq> ''critical'' \<and> p \<noteq> ''high'' \<and> p \<noteq> ''medium''))
           \<and> (m \<noteq> ''temperature'' \<and> m \<noteq> ''precipitation'' \<longrightarrow>
                 ((d = ''critical'') = (s > 0.85))
               \<and> ((d = ''high'') = (d \<noteq> ''critical'' \<and> s > 0.7))
               \<and> ((d = ''medium'') = (d \<noteq> ''critical'' \<and> d \<noteq> ''high'' \<and> s > 0.5))
               \<and> ((d = ''low'') = (d \<noteq> ''critical'' \<and> d \<noteq> ''high'' \<and> d \<noteq> ''medium'')))
           \<and> d \<in> {''low'', ''medium'', ''high'', ''critical''})"
  unfolding Let_def classify_severity_def fgt_def flt_def
  by auto

theorem classify_severity_rules_witness:
  "''humidity'' \<noteq> ''temperature'' \<and> ''humidity'' \<noteq> ''precipitation''
   \<and> classify_severity (Some 0.8) (Some 41) ''humidity'' = ''high''
   \<and> classify_severity (Some 0.8) (Some 41) ''temperature'' = ''critical''
   \<and> classify_severity (Some 0.8) (Some 41) ''precipitation'' = ''high''"
  using classify_severity_rules [of "0.8" 41 "''humidity''"]
  by (simp add: Let_def)

text \<open>
  C2. For a real value, \<open>determine_alert_type\<close> returns one of the eight labels heat\_wave,
  freeze\_event, cold\_snap, temperature\_anomaly, extreme\_precipitation, drought\_indicator,
  precipitation\_anomaly, climate\_anomaly. On "temperature": heat\_wave iff value > 35, else
  freeze\_event iff value < 0, else cold\_snap iff value < 5, else temperature\_anomaly. On
  "precipitation": extreme\_precipitation iff value > 50, else drought\_indicator iff
  value < 0.1, else precipitation\_anomaly. On any other metric: climate\_anomaly.
\<close>

theorem determine_alert_type_rules:
  fixes v :: real
  shows "(let t = determine_alert_type (Some v) ''temperature'' ctx;
              p = determine_alert_type (Some v) ''precipitation'' ctx;
              d = determine_alert_type (Some v) m ctx
          in ((t = ''heat_wave'') = (v > 35))
           \<and> ((t = ''freeze_event'') = (t \<noteq> ''heat_wave'' \<and> v < 0))
           \<and> ((t = ''cold_snap'') = (t \<noteq> ''heat_wave'' \<and> t \<noteq> ''freeze_event'' \<and> v < 5))
           \<and> ((t = ''temperature_anomaly'') =
                 (t \<noteq> ''heat_wave'' \<and> t \<noteq> ''freeze_event'' \<and> t \<noteq> ''cold_snap''))
           \<and> ((p = ''extreme_precipitation'') = (v > 50))
           \<and> ((p = ''drought_indicator'') = (p \<noteq> ''extreme_precipitation'' \<and> v < 0.1))
           \<and> ((p = ''precipitation_anomaly'') =
                 (p \<noteq> ''extreme_precipitation'' \<and> p \<noteq> ''drought_indicator''))
           \<and> (m \<noteq> ''temperature'' \<and> m \<noteq> ''precipitation'' \<longrightarrow> d = ''climate_anomaly'')
           \<and> d \<in> {''heat_wave'', ''freeze_event'', ''cold_snap'', ''temperature_anomaly'',
                   ''extreme_precipitation'', ''drought_indicator'', ''precipitation_anomaly'',
                   ''climate_anomaly''})"
  unfolding Let_def determine_alert_type_def fgt_def flt_def
  by auto

theorem determine_alert_type_rules_witness:
  "''wind'' \<noteq> ''temperature'' \<and> ''wind'' \<noteq> ''precipitation''
   \<and> determine_alert_type (Some 3) ''wind'' (None :: unit option) = ''climate_anomaly''
   \<and> determine_alert_type (Some 3) ''temperature'' (None :: unit option) = ''cold_snap''
   \<and> determine_alert_type (Some 3) ''precipitation'' (None :: unit option)
       = ''precipitation_anomaly''"
  using determine_alert_type_rules [of 3 "None :: unit option" "''wind''"]
  by (simp add: Let_def)

text \<open>
  C10. \<open>classify_severity\<close> is monotone in the anomaly score: for a fixed value (NaN
  included) and metric, and real scores \<open>s1 \<le> s2\<close>, the severity for \<open>s2\<close> is at least
  the severity for \<open>s1\<close> in the order low < medium < high < critical, which
  \<open>severity_order\<close> numbers 1 to 4.
\<close>

theorem classify_severity_monotone:
  fixes s1 s2 :: real
  assumes "s1 \<le> s2"
  shows "severity_order (classify_severity (Some s1) v m)
           \<le> severity_order (classify_severity (Some s2) v m)
         \<and> severity_order ''low'' < severity_order ''medium''
         \<and> severity_order ''medium'' < severity_order ''high''
         \<and> severity_order ''high'' < severity_order ''critical''"
  using assms
  unfolding classify_severity_def severity_order_def fgt_def flt_def
  by (cases v) auto

theorem classify_severity_monotone_witness:
  "(0.6::real) \<le> 0.8
   \<and> severity_order (classify_severity (Some 0.6) (Some 20) ''temperature'')
       \<le> severity_order (classify_severity (Some 0.8) (Some 20) ''temperature'')
   \<and> classify_severity (Some 0.6) (Some 20) ''temperature'' = ''medium''
   \<and> classify_severity (Some 0.8) (Some 20) ''temperature'' = ''high''"
proof -
  have le: "(0.6::real) \<le> 0.8" by simp
  have "classify_severity (Some 0.6) (Some 20) ''temperature'' = ''medium''"
       "classify_severity (Some 0.8) (Some 20) ''temperature'' = ''high''"
    by (simp_all add: classify_severity_def fgt_def flt_def)
  with le classify_severity_monotone [OF le, of "Some 20" "''temperature''"]
  show ?thesis by simp
qed

section \<open>Theorems about the client\<close>

text \<open>
  C3. \<open>create_alert\<close> only builds data: the state after the call is the state before it
  (the clock is read, nothing is written, and the external entity store is not reached),
  and the result is the dictionary with entity\_model "climate\_alert", entity\_version "1"
  and an entity\_data that holds exactly the seven supplied fields, then status,
  created\_at, acknowledged and resolved, then description, ai\_analysis and recommendations,
  each present iff its argument is truthy.
\<close>

theorem create_alert_pure_data:
  "(let ed = [(''alert_type'', p_alert_type p), (''severity'', p_severity p),
              (''value'', p_value p), (''date'', p_date p),
              (''anomaly_score'', p_anomaly_score p), (''location'', p_location p),
              (''metric'', p_metric p), (''status'', PStr ''active''),
              (''created_at'', PStr (utcnow w)), (''acknowledged'', PBool False),
              (''resolved'', PBool False)]
              @ (if truthy (p_description p) then [(''description'', p_description p)] else [])
              @ (if truthy (p_ai_analysis p) then [(''ai_analysis'', p_ai_analysis p)] else [])
              @ (if truthy (p_recommendations p)
                 then [(''recommendations'', p_recommendations p)] else [])
    in snd (create_alert w p) = w
     \<and> fst (create_alert w p) =
         PDict [(''entity_model'', PStr ''climate_alert''), (''entity_version'', PStr ''1''),
                (''entity_data'', PDict ed)]
     \<and> distinct (map fst ed)
     \<and> (''description'' \<in> set (map fst ed)) = truthy (p_description p)
     \<and> (''ai_analysis'' \<in> set (map fst ed)) = truthy (p_ai_analysis p)
     \<and> (''recommendations'' \<in> set (map fst ed)) = truthy (p_recommendations p))"
  unfolding create_alert_def Let_def ENTITY_MODEL_def ENTITY_VERSION_def
  by simp

text \<open>
  C5 (amended). The search\_conditions field of \<open>search_alerts\<close>: the empty dictionary when no filter
  is in force, the single simple condition when exactly one is, and otherwise an AND group
  of the simple conditions in the order status, severity, alert\_type, min\_anomaly\_score,
  date\_from, date\_to; the first three with EQUALS, min\_anomaly\_score and date\_from with
  GREATER\_THAN, date\_to with LESS\_THAN. A filter is in force as the source tests it: a
  truthy value for the five string filters, any value but \<open>None\<close> for min\_anomaly\_score.
\<close>

theorem search_alerts_conditions:
  "dict_get (search_alerts status severity alert_type min_anomaly_score date_from date_to)
       ''search_conditions''
     = Some (case supplied_conditions status severity alert_type min_anomaly_score
                    date_from date_to of
               [] \<Rightarrow> PDict []
             | [c] \<Rightarrow> c
             | cs \<Rightarrow> PDict [(''type'', PStr ''group''), (''operator'', PStr ''AND''),
                            (''conditions'', PList cs)])"
  unfolding search_alerts_def supplied_conditions_def simple_condition_def dict_get_def Let_def
  by simp

text \<open>
  C5 as stated fails when a string filter is supplied as the empty string: with status
  \<open>''\<close> as the only filter the conditions are the empty dictionary, not a simple
  condition, and with status \<open>''\<close> and severity "high" they are the single severity
  condition, not an AND group of two.
\<close>

theorem search_alerts_empty_counterexample:
  "dict_get (search_alerts (PStr []) PNone PNone PNone PNone PNone) ''search_conditions''
     = Some (PDict [])
   \<and> dict_get (search_alerts (PStr []) (PStr ''high'') PNone PNone PNone PNone)
       ''search_conditions''
     = Some (PDict [(''type'', PStr ''simple''), (''jsonPath'', PStr ''$.severity''),
                    (''operatorType'', PStr ''EQUALS''), (''value'', PStr ''high'')])"
  by (simp add: search_alerts_def dict_get_def)

section \<open>Theorems about the alert-list route\<close>

lemma get_response_frame: "snd (get_response w) = w"
  by (simp add: get_response_def)

lemma list_alerts_get:
  "req_method req = GET \<Longrightarrow>
     list_alerts w req = get_response (case cached_alerts w of None \<Rightarrow> w\<lparr>cached_alerts := Some []\<rparr> | Some _ \<Rightarrow> w)"
  by (simp add: list_alerts_def)

lemma the_cache_init:
  "the_cache (case cached_alerts w of None \<Rightarrow> w\<lparr>cached_alerts := Some []\<rparr> | Some _ \<Rightarrow> w) = the_cache w"
  by (simp add: the_cache_def split: option.splits)

text \<open>
  C8 (amended). The store is one list. A GET leaves the cached list (and the rest of the
  state) as it was, and answers with the cached alerts when there are some, otherwise
  with an empty alerts list and the MCP list specification. A POST whose body is a
  dictionary with an alerts field that iterates and normalizes without an exception sets
  the cache to exactly the normalized alerts of that request, whatever it held before.
  When iterating or normalizing the field raises, the exception escapes the handler and
  the cached list is what it was.
\<close>

theorem list_alerts_cache:
  "(req_method req = GET \<longrightarrow>
      the_cache (snd (list_alerts w req)) = the_cache w
    \<and> utcnow (snd (list_alerts w req)) = utcnow w
    \<and> cyoda_entities (snd (list_alerts w req)) = cyoda_entities w
    \<and> (\<exists>body. fst (list_alerts w req) = Inr (200, body)
         \<and> dict_get body ''alerts'' = Some (PList (the_cache w))
         \<and> dict_get body ''cached'' = Some (PBool (the_cache w \<noteq> []))
         \<and> dict_get body ''mcp_spec''
             = (if the_cache w \<noteq> [] then None else Some list_all_alerts)))
  \<and> (req_method req = POST \<and> req_json req = Inr (PDict kvs)
        \<and> map_of kvs ''alerts'' = Some field \<longrightarrow>
      (\<forall>entities alerts.
          py_iter field = Inr entities \<and> normalize_alerts entities = Inr alerts \<longrightarrow>
            snd (list_alerts w req) = w\<lparr>cached_alerts := Some alerts\<rparr>
          \<and> (\<exists>body. fst (list_alerts w req) = Inr (200, body)
               \<and> dict_get body ''count'' = Some (PInt (int (length alerts)))))
    \<and> (\<forall>err. py_iter field = Inl err
               \<or> (\<exists>entities. py_iter field = Inr entities
                     \<and> normalize_alerts entities = Inl err) \<longrightarrow>
            fst (list_alerts w req) = Inl err
          \<and> the_cache (snd (list_alerts w req)) = the_cache w))"
proof (intro conjI impI allI)
  assume g: "req_method req = GET"
  show "the_cache (snd (list_alerts w req)) = the_cache w"
    by (simp add: list_alerts_get [OF g] get_response_frame the_cache_init)
  show "utcnow (snd (list_alerts w req)) = utcnow w"
    by (simp add: list_alerts_get [OF g] get_response_frame split: option.splits)
  show "cyoda_entities (snd (list_alerts w req)) = cyoda_entities w"
    by (simp add: list_alerts_get [OF g] get_response_frame split: option.splits)
  show "\<exists>body. fst (list_alerts w req) = Inr (200, body)
         \<and> dict_get body ''alerts'' = Some (PList (the_cache w))
         \<and> dict_get body ''cached'' = Some (PBool (the_cache w \<noteq> []))
         \<and> dict_get body ''mcp_spec''
             = (if the_cache w \<noteq> [] then None else Some list_all_alerts)"
    by (simp add: list_alerts_get [OF g] get_response_def the_cache_init dict_get_def)
next
  fix entities alerts
  assume p: "req_method req = POST \<and> req_json req = Inr (PDict kvs)
        \<and> map_of kvs ''alerts'' = Some field"
    and n: "py_iter field = Inr entities \<and> normalize_alerts entities = Inr alerts"
  from p have k: "kvs \<noteq> []" "''alerts'' \<in> fst ` set kvs"
    by (force dest: map_of_SomeD)+
  show "snd (list_alerts w req) = w\<lparr>cached_alerts := Some alerts\<rparr>"
    using p n k by (simp add: list_alerts_def py_contains_def subscript_def split: option.splits)
  show "\<exists>body. fst (list_alerts w req) = Inr (200, body)
               \<and> dict_get body ''count'' = Some (PInt (int (length alerts)))"
    using p n k by (simp add: list_alerts_def py_contains_def subscript_def dict_get_def)
next
  fix err
  assume p: "req_method req = POST \<and> req_json req = Inr (PDict kvs)
        \<and> map_of kvs ''alerts'' = Some field"
    and n: "py_iter field = Inl err
               \<or> (\<exists>entities. py_iter field = Inr entities
                     \<and> normalize_alerts entities = Inl err)"
  from p have k: "kvs \<noteq> []" "''alerts'' \<in> fst ` set kvs"
    by (force dest: map_of_SomeD)+
  show "fst (list_alerts w req) = Inl err"
    using p n k by (auto simp add: list_alerts_def py_contains_def subscript_def)
  show "the_cache (snd (list_alerts w req)) = the_cache w"
    using p n k by (auto simp add: list_alerts_def py_contains_def subscript_def the_cache_def split: option.splits)
qed

theorem list_alerts_cache_witness:
  "req_method \<lparr>req_method = GET, req_json = Inr PNone\<rparr> = GET
   \<and> the_cache (snd (list_alerts
         \<lparr>utcnow = ''t'', cyoda_entities = [], cached_alerts = Some [PStr ''old'']\<rparr>
         \<lparr>req_method = GET, req_json = Inr PNone\<rparr>)) = [PStr ''old'']
   \<and> py_iter (PList [PInt 3, PDict [(''severity'', PStr ''high'')]])
       = Inr [PInt 3, PDict [(''severity'', PStr ''high'')]]
   \<and> normalize_alerts [PInt 3, PDict [(''severity'', PStr ''high'')]]
       = Inr [PDict [(''severity'', PStr ''high'')]]
   \<and> snd (list_alerts
         \<lparr>utcnow = ''t'', cyoda_entities = [], cached_alerts = Some [PStr ''old'']\<rparr>
         \<lparr>req_method = POST,
          req_json = Inr (PDict [(''alerts'',
                        PList [PInt 3, PDict [(''severity'', PStr ''high'')]])])\<rparr>)
       = \<lparr>utcnow = ''t'', cyoda_entities = [],
          cached_alerts = Some [PDict [(''severity'', PStr ''high'')]]\<rparr>
   \<and> py_iter (PInt 5) = Inl TypeError
   \<and> the_cache (snd (list_alerts
         \<lparr>utcnow = ''t'', cyoda_entities = [], cached_alerts = Some [PStr ''old'']\<rparr>
         \<lparr>req_method = POST, req_json = Inr (PDict [(''alerts'', PInt 5)])\<rparr>))
       = [PStr ''old'']"
proof -
  let ?w = "\<lparr>utcnow = ''t'', cyoda_entities = [], cached_alerts = Some [PStr ''old'']\<rparr>"
  let ?es = "[PInt 3, PDict [(''severity'', PStr ''high'')]]"
  let ?g = "\<lparr>req_method = GET, req_json = Inr PNone\<rparr>"
  let ?p = "\<lparr>req_method = POST, req_json = Inr (PDict [(''alerts'', PList ?es)])\<rparr>"
  let ?q = "\<lparr>req_method = POST, req_json = Inr (PDict [(''alerts'', PInt 5)])\<rparr>"
  have it: "py_iter (PList ?es) = Inr ?es" "py_iter (PInt 5) = Inl TypeError"
    by (simp_all add: py_iter_def)
  have no: "normalize_alerts ?es = Inr [PDict [(''severity'', PStr ''high'')]]"
    by (simp add: normalize_entity_def)
  have a: "the_cache (snd (list_alerts ?w ?g)) = [PStr ''old'']"
    using list_alerts_cache [where w = ?w and req = ?g]
    by (simp add: the_cache_def)
  have b: "snd (list_alerts ?w ?p) = ?w\<lparr>cached_alerts := Some [PDict [(''severity'', PStr ''high'')]]\<rparr>"
    using list_alerts_cache [where w = ?w and req = ?p and kvs = "[(''alerts'', PList ?es)]"
        and field = "PList ?es"] it no
    by simp
  have c: "the_cache (snd (list_alerts ?w ?q)) = [PStr ''old'']"
    using list_alerts_cache [where w = ?w and req = ?q and kvs = "[(''alerts'', PInt 5)]"
        and field = "PInt 5"] it
    by (simp add: the_cache_def)
  show ?thesis using a b c it no by simp
qed

text \<open>
  C8 as stated fails: a POST that carries an alerts field which is \<open>null\<close> raises
  TypeError at the \<open>for\<close> loop and the cache keeps its previous contents.
\<close>

theorem list_alerts_post_counterexample:
  "list_alerts
     \<lparr>utcnow = ''t'', cyoda_entities = [],
      cached_alerts = Some [PDict [(''severity'', PStr ''low'')]]\<rparr>
     \<lparr>req_method = POST, req_json = Inr (PDict [(''alerts'', PNone)])\<rparr>
   = (Inl TypeError,
      \<lparr>utcnow = ''t'', cyoda_entities = [],
       cached_alerts = Some [PDict [(''severity'', PStr ''low'')]]\<rparr>)"
  by (simp add: list_alerts_def py_contains_def subscript_def py_iter_def)

section \<open>Theorems about the feature matrix\<close>

lemma length_bfill: "length (bfill xs) = length xs"
  by (induction xs) (auto split: list.splits)

lemma length_ffill_from: "length (ffill_from p xs) = length xs"
  by (induction xs arbitrary: p) auto

lemma length_filled: "length (filled xs) = length xs"
  by (simp add: filled_def fillna0_def ffill_def length_ffill_from length_bfill)

lemma is_na_zero: "\<not> is_na (CNum (Some 0))"
  by (simp add: is_na_def)

lemma filled_no_na: "list_all (\<lambda>c. \<not> is_na c) (filled xs)"
  by (auto simp: filled_def fillna0_def list_all_iff is_na_zero)

lemma names: "str_nat 7 = ''7''" "str_nat 14 = ''14''" "str_nat 30 = ''30''"
  by code_simp+

lemma wf_col_len:
  assumes "wf_df df" "map_of df k = Some c"
  shows "col_len c = df_len df"
proof -
  from assms(2) have "(k, c) \<in> set df" by (rule map_of_SomeD)
  with assms(1) show ?thesis
    by (auto simp: wf_df_def list_all_iff)
qed

lemma is_numeric_dtype_ok: "is_numeric col \<Longrightarrow> rolling_dtype_ok lib col"
  by (cases col) (simp_all add: is_numeric_def rolling_dtype_ok_def)

lemma rolling_features_run:
  assumes "rolling_dtype_ok lib col"
  shows "rolling_features lib col [7, 14, 30] [(''value'', v)] =
     Inr [(''value'', v),
          (''rolling_mean_7'', map (\<lambda>i. CNum (rolling_mean lib 7 col i)) [0..<col_len col]),
          (''rolling_std_7'', map (\<lambda>i. CNum (rolling_std lib 7 col i)) [0..<col_len col]),
          (''rolling_mean_14'', map (\<lambda>i. CNum (rolling_mean lib 14 col i)) [0..<col_len col]),
          (''rolling_std_14'', map (\<lambda>i. CNum (rolling_std lib 14 col i)) [0..<col_len col]),
          (''rolling_mean_30'', map (\<lambda>i. CNum (rolling_mean lib 30 col i)) [0..<col_len col]),
          (''rolling_std_30'', map (\<lambda>i. CNum (rolling_std lib 30 col i)) [0..<col_len col])]"
  using assms by (simp add: rolling_column_def names)

lemma rolling_features_raise:
  assumes "\<not> rolling_dtype_ok lib col"
  shows "rolling_features lib col (w # ws) X = Inl DataError"
  using assms by (simp add: rolling_column_def)

lemma diff_column_numeric:
  "is_numeric col \<Longrightarrow> diff_column lib col = Inr (map (series_diff lib col) [0..<col_len col])"
  by (cases col) (simp_all add: is_numeric_def diff_column_def)

lemma prepare_features_no_date:
  assumes "map_of df vc = Some col" "is_numeric col" "map_of df ''date'' = None"
  shows "prepare_features lib df vc =
           Inr (df, fill_features
                 [(''value'', col_cells col),
                  (''rolling_mean_7'', map (\<lambda>i. CNum (rolling_mean lib 7 col i)) [0..<col_len col]),
                  (''rolling_std_7'', map (\<lambda>i. CNum (rolling_std lib 7 col i)) [0..<col_len col]),
                  (''rolling_mean_14'', map (\<lambda>i. CNum (rolling_mean lib 14 col i)) [0..<col_len col]),
                  (''rolling_std_14'', map (\<lambda>i. CNum (rolling_std lib 14 col i)) [0..<col_len col]),
                  (''rolling_mean_30'', map (\<lambda>i. CNum (rolling_mean lib 30 col i)) [0..<col_len col]),
                  (''rolling_std_30'', map (\<lambda>i. CNum (rolling_std lib 30 col i)) [0..<col_len col]),
                  (''daily_change'', map (series_diff lib col) [0..<col_len col])])"
  using assms
  by (simp add: prepare_features_def rolling_features_run [OF is_numeric_dtype_ok]
        diff_column_numeric del: rolling_features.simps)

lemma prepare_features_date:
  assumes "map_of df vc = Some col" "is_numeric col" "map_of df ''date'' = Some dates"
    "to_datetime lib dates = Inr ts" "length ts = df_len df"
  shows "prepare_features lib df vc =
           Inr (dict_set df ''date'' (DateCol ts), fill_features
                 [(''value'', col_cells col),
                  (''rolling_mean_7'', map (\<lambda>i. CNum (rolling_mean lib 7 col i)) [0..<col_len col]),
                  (''rolling_std_7'', map (\<lambda>i. CNum (rolling_std lib 7 col i)) [0..<col_len col]),
                  (''rolling_mean_14'', map (\<lambda>i. CNum (rolling_mean lib 14 col i)) [0..<col_len col]),
                  (''rolling_std_14'', map (\<lambda>i. CNum (rolling_std lib 14 col i)) [0..<col_len col]),
                  (''rolling_mean_30'', map (\<lambda>i. CNum (rolling_mean lib 30 col i)) [0..<col_len col]),
                  (''rolling_std_30'', map (\<lambda>i. CNum (rolling_std lib 30 col i)) [0..<col_len col]),
                  (''daily_change'', map (series_diff lib col) [0..<col_len col]),
                  (''day_of_year'', map (\<lambda>t. CNum (dayofyear lib t)) ts),
                  (''month'', map (\<lambda>t. CNum (month_of lib t)) ts)])"
  using assms
  by (simp add: prepare_features_def rolling_features_run [OF is_numeric_dtype_ok]
        diff_column_numeric del: rolling_features.simps)

lemma fill_features_ok:
  assumes "list_all (\<lambda>nc. length (snd nc) = n) X"
  shows "list_all (\<lambda>nc. length (snd nc) = n \<and> list_all (\<lambda>c. \<not> is_na c) (snd nc))
           (fill_features X)"
  using assms
  by (induction X)
     (auto simp: fill_features_def length_filled filled_no_na simp flip: filled_def)

text \<open>
  C6 (amended). On a frame whose value column holds numbers or booleans (and whose date
  column, when it has one, \<open>pd.to_datetime\<close> converts), \<open>prepare_features\<close> returns a
  feature matrix with one row per input row. Its columns are value, rolling\_mean and
  rolling\_std for the windows 7, 14 and 30, daily\_change and, when the frame has a date
  column, day\_of\_year and month: the value column, pandas' rolling mean and rolling
  standard deviation of it for each window, its \<open>diff\<close>, and the day of the year and
  month of the converted dates, each after \<open>bfill\<close>, \<open>ffill\<close> and \<open>fillna(0)\<close>. No entry
  of the matrix is NaN, whatever the number of rows.
\<close>

theorem prepare_features_no_nan:
  assumes wf: "wf_df df"
    and val: "map_of df value_column = Some col"
    and num: "is_numeric col"
    and conv: "\<forall>dates. map_of df ''date'' = Some dates \<longrightarrow>
                 (\<exists>ts. to_datetime lib dates = Inr ts \<and> length ts = df_len df)"
  shows "\<exists>df' X. prepare_features lib df value_column = Inr (df', X)
           \<and> map fst X =
               [''value'', ''rolling_mean_7'', ''rolling_std_7'', ''rolling_mean_14'',
                ''rolling_std_14'', ''rolling_mean_30'', ''rolling_std_30'', ''daily_change'']
               @ (if map_of df ''date'' = None then [] else [''day_of_year'', ''month''])
           \<and> list_all (\<lambda>nc. length (snd nc) = df_len df
                          \<and> list_all (\<lambda>c. \<not> is_na c) (snd nc)) X
           \<and> map_of X ''value'' = Some (filled (col_cells col))
           \<and> (\<forall>w \<in> {7, 14, 30}.
                 map_of X (''rolling_mean_'' @ str_nat w)
                   = Some (filled (map (\<lambda>i. CNum (rolling_mean lib w col i)) [0..<df_len df]))
               \<and> map_of X (''rolling_std_'' @ str_nat w)
                   = Some (filled (map (\<lambda>i. CNum (rolling_std lib w col i)) [0..<df_len df])))
           \<and> map_of X ''daily_change''
               = Some (filled (map (series_diff lib col) [0..<df_len df]))
           \<and> (\<forall>dates ts. map_of df ''date'' = Some dates \<and> to_datetime lib dates = Inr ts \<longrightarrow>
                 map_of X ''day_of_year''
                   = Some (filled (map (\<lambda>t. CNum (dayofyear lib t)) ts))
               \<and> map_of X ''month''
                   = Some (filled (map (\<lambda>t. CNum (month_of lib t)) ts)))"
proof -
  have n: "col_len col = df_len df"
    by (rule wf_col_len [OF wf val])
  let ?base = "[(''value'', col_cells col),
                  (''rolling_mean_7'', map (\<lambda>i. CNum (rolling_mean lib 7 col i)) [0..<col_len col]),
                  (''rolling_std_7'', map (\<lambda>i. CNum (rolling_std lib 7 col i)) [0..<col_len col]),
                  (''rolling_mean_14'', map (\<lambda>i. CNum (rolling_mean lib 14 col i)) [0..<col_len col]),
                  (''rolling_std_14'', map (\<lambda>i. CNum (rolling_std lib 14 col i)) [0..<col_len col]),
                  (''rolling_mean_30'', map (\<lambda>i. CNum (rolling_mean lib 30 col i)) [0..<col_len col]),
                  (''rolling_std_30'', map (\<lambda>i. CNum (rolling_std lib 30 col i)) [0..<col_len col]),
                  (''daily_change'', map (series_diff lib col) [0..<col_len col])]"
  have base: "list_all (\<lambda>nc. length (snd nc) = df_len df) ?base"
    using n by (simp add: col_len_def)
  show ?thesis
  proof (cases "map_of df ''date''")
    case None
    let ?X = "fill_features ?base"
    have run: "prepare_features lib df value_column = Inr (df, ?X)"
      by (rule prepare_features_no_date [OF val num None])
    have ok: "list_all (\<lambda>nc. length (snd nc) = df_len df
                          \<and> list_all (\<lambda>c. \<not> is_na c) (snd nc)) ?X"
      by (rule fill_features_ok [OF base])
    have cols: "map fst ?X =
               [''value'', ''rolling_mean_7'', ''rolling_std_7'', ''rolling_mean_14'',
                ''rolling_std_14'', ''rolling_mean_30'', ''rolling_std_30'', ''daily_change'']
               @ (if map_of df ''date'' = None then [] else [''day_of_year'', ''month''])"
      by (simp add: None fill_features_def)
    have vals: "map_of ?X ''value'' = Some (filled (col_cells col))"
      "\<forall>w \<in> {7, 14, 30}.
                 map_of ?X (''rolling_mean_'' @ str_nat w)
                   = Some (filled (map (\<lambda>i. CNum (rolling_mean lib w col i)) [0..<df_len df]))
               \<and> map_of ?X (''rolling_std_'' @ str_nat w)
                   = Some (filled (map (\<lambda>i. CNum (rolling_std lib w col i)) [0..<df_len df]))"
      "map_of ?X ''daily_change''
               = Some (filled (map (series_diff lib col) [0..<df_len df]))"
      by (simp_all add: fill_features_def names n filled_def)
    from run ok cols vals None show ?thesis by simp
  next
    case (Some dates)
    with conv obtain ts where ts: "to_datetime lib dates = Inr ts" "length ts = df_len df"
      by blast
    let ?X = "fill_features (?base @ [(''day_of_year'', map (\<lambda>t. CNum (dayofyear lib t)) ts),
                                     (''month'', map (\<lambda>t. CNum (month_of lib t)) ts)])"
    have run: "prepare_features lib df value_column = Inr (dict_set df ''date'' (DateCol ts), ?X)"
      using prepare_features_date [OF val num Some ts] by simp
    have "list_all (\<lambda>nc. length (snd nc) = df_len df)
            (?base @ [(''day_of_year'', map (\<lambda>t. CNum (dayofyear lib t)) ts),
                      (''month'', map (\<lambda>t. CNum (month_of lib t)) ts)])"
      using base by (simp add: ts)
    then have ok: "list_all (\<lambda>nc. length (snd nc) = df_len df
                          \<and> list_all (\<lambda>c. \<not> is_na c) (snd nc)) ?X"
      by (rule fill_features_ok)
    have cols: "map fst ?X =
               [''value'', ''rolling_mean_7'', ''rolling_std_7'', ''rolling_mean_14'',
                ''rolling_std_14'', ''rolling_mean_30'', ''rolling_std_30'', ''daily_change'']
               @ (if map_of df ''date'' = None then [] else [''day_of_year'', ''month''])"
      by (simp add: Some fill_features_def)
    have vals: "map_of ?X ''value'' = Some (filled (col_cells col))"
      "\<forall>w \<in> {7, 14, 30}.
                 map_of ?X (''rolling_mean_'' @ str_nat w)
                   = Some (filled (map (\<lambda>i. CNum (rolling_mean lib w col i)) [0..<df_len df]))
               \<and> map_of ?X (''rolling_std_'' @ str_nat w)
                   = Some (filled (map (\<lambda>i. CNum (rolling_std lib w col i)) [0..<df_len df]))"
      "map_of ?X ''daily_change''
               = Some (filled (map (series_diff lib col) [0..<df_len df]))"
      "map_of ?X ''day_of_year'' = Some (filled (map (\<lambda>t. CNum (dayofyear lib t)) ts))"
      "map_of ?X ''month'' = Some (filled (map (\<lambda>t. CNum (month_of lib t)) ts))"
      by (simp_all add: fill_features_def names n filled_def)
    from run ok cols vals Some ts show ?thesis by simp
  qed
qed

section \<open>Theorems about detection\<close>

lemma map_of_dict_set:
  "map_of (dict_set kvs k v) k' = (if k' = k then Some v else map_of kvs k')"
  by (induction kvs) auto

lemma dict_set_not_Nil: "dict_set kvs k v \<noteq> []" "[] \<noteq> dict_set kvs k v"
  by (cases kvs; auto split: if_splits)+

lemma set_fst_dict_set:
  "fst ` set (dict_set kvs k v) = insert k (fst ` set kvs)"
  by (induction kvs k v rule: dict_set.induct) (simp_all add: insert_commute)

lemma df_len_dict_set:
  "df \<noteq> [] \<Longrightarrow> col_len c = df_len df \<Longrightarrow> df_len (dict_set df k c) = df_len df"
  by (cases df) (auto simp: df_len_def)

lemma rolling_features_Inr:
  "rolling_features lib col (w # ws) X = Inr Y \<Longrightarrow> rolling_dtype_ok lib col"
  by (rule ccontr) (simp add: rolling_column_def)

lemma prepare_features_Inr:
  assumes "prepare_features lib df vc = Inr (df', X)"
  shows "\<exists>col. map_of df vc = Some col \<and> rolling_dtype_ok lib col
           \<and> ((map_of df ''date'' = None \<and> df' = df)
              \<or> (\<exists>dates ts. map_of df ''date'' = Some dates \<and> to_datetime lib dates = Inr ts
                    \<and> length ts = df_len df \<and> df' = dict_set df ''date'' (DateCol ts)))"
  using assms
  by (auto simp: prepare_features_def Let_def
           simp del: rolling_features.simps
           dest: rolling_features_Inr
           split: option.splits sum.splits if_splits)

lemma detect_Inr:
  assumes "detect lib d df vc = (Inr res, df')"
  shows "fitted d \<and> (\<exists>X Xs ps ss.
           prepare_features lib df vc = Inr (df', X)
         \<and> scaler_transform d X = Inr Xs
         \<and> model_predict d Xs = Inr ps
         \<and> model_score_samples d Xs = Inr ss
         \<and> length ps = df_len df' \<and> length ss = df_len df'
         \<and> res = dict_set (dict_set df' ''is_anomaly'' (BoolCol (map (\<lambda>p. p = - 1) ps)))
                    ''anomaly_score'' (NumCol (map (\<lambda>s. Some (- s)) ss)))"
  using assms
  by (auto simp: detect_def Let_def split: sum.splits if_splits prod.splits)

lemma detect_returns:
  assumes "fitted d" "prepare_features lib df vc = Inr (df', X)"
     "scaler_transform d X = Inr Xs" "model_predict d Xs = Inr ps"
     "model_score_samples d Xs = Inr ss" "length ps = df_len df'" "length ss = df_len df'"
  shows "detect lib d df vc =
           (Inr (dict_set (dict_set df' ''is_anomaly'' (BoolCol (map (\<lambda>p. p = - 1) ps)))
                    ''anomaly_score'' (NumCol (map (\<lambda>s. Some (- s)) ss))), df')"
  using assms by (simp add: detect_def Let_def)

text \<open>
  C7. \<open>detect\<close> returns whenever the detector is fitted, the features can be prepared and
  the scaler and the model answer with one prediction and one score per row. When it
  returns, the result is the caller's frame (the date column converted by
  \<open>prepare_features\<close>, every other column as it was, the same number of rows) with two
  columns set: is\_anomaly, true exactly in the rows where the model predicts -1, and
  anomaly\_score, the negation of \<open>score_samples\<close>; so one row's anomaly\_score is at most
  another's exactly when the model's score for it is at least the other's.
\<close>

text \<open>
  C7 (amended). \<open>detect\<close> returns whenever the detector is fitted, the features can be
  prepared and the scaler and the model answer with one prediction and one score per
  row. When it returns, the result is the caller's frame as \<open>prepare_features\<close> leaves it
  (the date column, when there is one, replaced by what \<open>pd.to_datetime\<close> makes of it,
  every other column as it was, the same number of rows) with the columns is\_anomaly
  and anomaly\_score set: added at the end, or overwritten in place when the frame
  already has a column of that name. is\_anomaly is true exactly in the rows where the
  model predicts -1, and anomaly\_score is the negation of \<open>score_samples\<close>; so one row's
  anomaly\_score is at most another's exactly when the model's score for it is at least
  the other's.
\<close>

theorem detect_columns:
  "(fitted d \<and> prepare_features lib df value_column = Inr (converted, X)
      \<and> scaler_transform d X = Inr X_scaled
      \<and> model_predict d X_scaled = Inr predictions
      \<and> model_score_samples d X_scaled = Inr scores
      \<and> length predictions = df_len converted \<and> length scores = df_len converted
    \<longrightarrow> (\<exists>res. detect lib d df value_column = (Inr res, converted)))
   \<and> (detect lib d df value_column = (Inr result_df, df')
    \<longrightarrow> fitted d
      \<and> (\<exists>X X_scaled predictions scores.
            prepare_features lib df value_column = Inr (df', X)
          \<and> scaler_transform d X = Inr X_scaled
          \<and> model_predict d X_scaled = Inr predictions
          \<and> model_score_samples d X_scaled = Inr scores
          \<and> result_df
              = dict_set (dict_set df' ''is_anomaly'' (BoolCol (map (\<lambda>p. p = - 1) predictions)))
                  ''anomaly_score'' (NumCol (map (\<lambda>s. Some (- s)) scores))
          \<and> map_of result_df ''is_anomaly''
              = Some (BoolCol (map (\<lambda>p. p = - 1) predictions))
          \<and> map_of result_df ''anomaly_score''
              = Some (NumCol (map (\<lambda>s. Some (- s)) scores))
          \<and> length predictions = df_len df' \<and> length scores = df_len df'
          \<and> (\<forall>i < length scores. \<forall>j < length scores.
                (map (\<lambda>s. - s) scores ! i \<le> map (\<lambda>s. - s) scores ! j)
                  = (scores ! j \<le> scores ! i)))
      \<and> df_len result_df = df_len df
      \<and> set (map fst result_df) = set (map fst df) \<union> {''is_anomaly'', ''anomaly_score''}
      \<and> (\<forall>k. k \<noteq> ''is_anomaly'' \<and> k \<noteq> ''anomaly_score''
               \<longrightarrow> map_of result_df k = map_of df' k)
      \<and> (\<forall>k. k \<noteq> ''date'' \<longrightarrow> map_of df' k = map_of df k)
      \<and> (map_of df ''date'' = None \<longrightarrow> df' = df)
      \<and> (\<forall>dates. map_of df ''date'' = Some dates \<longrightarrow>
            (\<exists>ts. to_datetime lib dates = Inr ts \<and> length ts = df_len df
                \<and> df' = dict_set df ''date'' (DateCol ts))))"
proof (intro conjI impI)
  assume "fitted d \<and> prepare_features lib df value_column = Inr (converted, X)
      \<and> scaler_transform d X = Inr X_scaled
      \<and> model_predict d X_scaled = Inr predictions
      \<and> model_score_samples d X_scaled = Inr scores
      \<and> length predictions = df_len converted \<and> length scores = df_len converted"
  then show "\<exists>res. detect lib d df value_column = (Inr res, converted)"
    using detect_returns [of d lib df value_column converted X X_scaled predictions scores]
    by simp
next
  assume a: "detect lib d df value_column = (Inr result_df, df')"
  from detect_Inr [OF a] obtain X Xs ps ss where
    f: "fitted d" and p: "prepare_features lib df value_column = Inr (df', X)"
    and t: "scaler_transform d X = Inr Xs" and pr: "model_predict d Xs = Inr ps"
    and sc: "model_score_samples d Xs = Inr ss"
    and len: "length ps = df_len df'" "length ss = df_len df'"
    and res: "result_df = dict_set (dict_set df' ''is_anomaly'' (BoolCol (map (\<lambda>p. p = - 1) ps)))
                    ''anomaly_score'' (NumCol (map (\<lambda>s. Some (- s)) ss))"
    by blast
  from prepare_features_Inr [OF p] obtain col where
    v: "map_of df value_column = Some col"
    and dt: "(map_of df ''date'' = None \<and> df' = df)
              \<or> (\<exists>dates ts. map_of df ''date'' = Some dates \<and> to_datetime lib dates = Inr ts
                    \<and> length ts = df_len df \<and> df' = dict_set df ''date'' (DateCol ts))"
    by blast
  show "fitted d" by (rule f)
  show "\<exists>X X_scaled predictions scores.
            prepare_features lib df value_column = Inr (df', X)
          \<and> scaler_transform d X = Inr X_scaled
          \<and> model_predict d X_scaled = Inr predictions
          \<and> model_score_samples d X_scaled = Inr scores
          \<and> result_df
              = dict_set (dict_set df' ''is_anomaly'' (BoolCol (map (\<lambda>p. p = - 1) predictions)))
                  ''anomaly_score'' (NumCol (map (\<lambda>s. Some (- s)) scores))
          \<and> map_of result_df ''is_anomaly''
              = Some (BoolCol (map (\<lambda>p. p = - 1) predictions))
          \<and> map_of result_df ''anomaly_score''
              = Some (NumCol (map (\<lambda>s. Some (- s)) scores))
          \<and> length predictions = df_len df' \<and> length scores = df_len df'
          \<and> (\<forall>i < length scores. \<forall>j < length scores.
                (map (\<lambda>s. - s) scores ! i \<le> map (\<lambda>s. - s) scores ! j)
                  = (scores ! j \<le> scores ! i))"
    using p t pr sc len by (simp add: res map_of_dict_set)
  from v have ne: "df \<noteq> []" by auto
  have l1: "df_len df' = df_len df"
    using dt ne by (auto simp: df_len_dict_set col_len_def)
  have ne': "df' \<noteq> []"
    using dt ne by (auto simp: dict_set_not_Nil)
  show "df_len result_df = df_len df"
    unfolding res using ne' len l1
    by (simp add: df_len_dict_set dict_set_not_Nil col_len_def)
  have "fst ` set df' = fst ` set df"
  proof (cases "map_of df ''date''")
    case None
    with dt show ?thesis by auto
  next
    case (Some dates)
    with dt obtain ts where "df' = dict_set df ''date'' (DateCol ts)" by auto
    moreover have "''date'' \<in> fst ` set df"
      using map_of_SomeD [OF Some] by force
    ultimately show ?thesis
      by (simp add: set_fst_dict_set insert_absorb)
  qed
  then show "set (map fst result_df) = set (map fst df) \<union> {''is_anomaly'', ''anomaly_score''}"
    by (simp add: res set_fst_dict_set insert_commute)
  show "\<forall>k. k \<noteq> ''is_anomaly'' \<and> k \<noteq> ''anomaly_score''
               \<longrightarrow> map_of result_df k = map_of df' k"
    by (simp add: res map_of_dict_set)
  show "\<forall>k. k \<noteq> ''date'' \<longrightarrow> map_of df' k = map_of df k"
    using dt by (auto simp: map_of_dict_set)
  show "map_of df ''date'' = None \<Longrightarrow> df' = df"
    using dt by auto
  show "\<forall>dates. map_of df ''date'' = Some dates \<longrightarrow>
            (\<exists>ts. to_datetime lib dates = Inr ts \<and> length ts = df_len df
                \<and> df' = dict_set df ''date'' (DateCol ts))"
    using dt by (auto simp: map_of_dict_set)
qed

section \<open>Theorems about the alert service\<close>

lemma create_alert_fields:
  "spec_field (fst (create_alert w p)) ''alert_type'' = Some (p_alert_type p)"
  "spec_field (fst (create_alert w p)) ''severity'' = Some (p_severity p)"
  "spec_field (fst (create_alert w p)) ''value'' = Some (p_value p)"
  "spec_field (fst (create_alert w p)) ''anomaly_score'' = Some (p_anomaly_score p)"
  "spec_field (fst (create_alert w p)) ''status'' = Some (PStr ''active'')"
  "spec_field (fst (create_alert w p)) ''acknowledged'' = Some (PBool False)"
  "spec_field (fst (create_alert w p)) ''resolved'' = Some (PBool False)"
  by (simp_all add: create_alert_def spec_field_def dict_get_def Let_def)

lemma alert_for_row_Inr:
  assumes "alert_for_row lib svc w vc metric use_ai row = Inr a"
  shows "alert_matches_row lib vc metric row a \<and> newly_created a"
  using assms
  by (auto simp: alert_for_row_def alert_matches_row_def newly_created_def Let_def
                 create_alert_fields
           split: sum.splits pyval.splits if_splits)

lemma alert_for_row_total:
  assumes "row_date lib w row = Inr date" "row_float lib row vc = Inr v"
    "row_float lib row ''anomaly_score'' = Inr s"
  shows "\<exists>a. alert_for_row lib svc w vc metric use_ai row = Inr a"
  using assms by (simp add: alert_for_row_def Let_def)

lemma for_rows_Inr:
  "for_rows body rows = Inr alerts \<Longrightarrow> list_all2 (\<lambda>r a. body r = Inr a) rows alerts"
  by (induction rows arbitrary: alerts) (auto split: sum.splits)

lemma for_rows_total:
  "\<forall>r \<in> set rows. \<exists>a. body r = Inr a \<Longrightarrow> \<exists>alerts. for_rows body rows = Inr alerts"
  by (induction rows) (auto split: sum.splits)

lemma map_of_row_at:
  "map_of (row_at df i) k = map_option (\<lambda>c. col_cells c ! i) (map_of df k)"
  by (induction df) (auto simp: row_at_def)

lemma cell_float_ok:
  assumes "rolling_dtype_ok lib col" "i < col_len col"
  shows "\<exists>v. (case col_cells col ! i of
                 CNum x \<Rightarrow> Inr x
               | CBool b \<Rightarrow> Inr (Some (if b then 1 else 0))
               | CStr s \<Rightarrow> parse_float lib s
               | CDate t \<Rightarrow> Inl TypeError) = Inr v"
proof (cases col)
  case (StrCol strs)
  with assms have "case parse_float lib (strs ! i) of Inl err \<Rightarrow> False | Inr x \<Rightarrow> True"
    by (simp add: rolling_dtype_ok_def col_len_def list_all_length)
  then obtain v where "parse_float lib (strs ! i) = Inr v"
    by (cases "parse_float lib (strs ! i)") auto
  with StrCol assms show ?thesis
    by (simp add: col_len_def)
qed (use assms in \<open>auto simp: rolling_dtype_ok_def col_len_def\<close>)

lemma detect_rows_readable:
  assumes det: "detect lib d df vc = (Inr results, df')"
    and wf: "wf_df df" and vc: "vc \<noteq> ''date''"
    and row: "row \<in> set (iterrows results)"
  shows "(\<exists>date. row_date lib w row = Inr date)
       \<and> (\<exists>v. row_float lib row vc = Inr v)
       \<and> (\<exists>s. row_float lib row ''anomaly_score'' = Inr s)"
proof -
  from detect_Inr [OF det] obtain X and ps :: "int list" and ss where
    p: "prepare_features lib df vc = Inr (df', X)"
    and len: "length ps = df_len df'" "length ss = df_len df'"
    and res: "results = dict_set (dict_set df' ''is_anomaly'' (BoolCol (map (\<lambda>p. p = - 1) ps)))
                    ''anomaly_score'' (NumCol (map (\<lambda>s. Some (- s)) ss))"
    by blast
  from prepare_features_Inr [OF p] obtain col where
    v: "map_of df vc = Some col" and ok: "rolling_dtype_ok lib col"
    and dt: "(map_of df ''date'' = None \<and> df' = df)
              \<or> (\<exists>dates ts. map_of df ''date'' = Some dates \<and> to_datetime lib dates = Inr ts
                    \<and> length ts = df_len df \<and> df' = dict_set df ''date'' (DateCol ts))"
    by blast
  from v have ne: "df \<noteq> []" by auto
  have n: "col_len col = df_len df"
    by (rule wf_col_len [OF wf v])
  have l1: "df_len df' = df_len df"
    using dt ne by (auto simp: df_len_dict_set col_len_def)
  have ne': "df' \<noteq> []"
    using dt ne by (auto simp: dict_set_not_Nil)
  have l2: "df_len results = df_len df"
    unfolding res using ne' len l1
    by (simp add: df_len_dict_set dict_set_not_Nil col_len_def)
  from row obtain i where i: "i < df_len df" and r: "row = row_at results i"
    by (auto simp: iterrows_def l2)
  have vc': "map_of df' vc = Some col"
    using dt v vc by (auto simp: map_of_dict_set)
  have date: "\<exists>date. row_date lib w row = Inr date"
    using dt i
    by (auto simp: r row_date_def map_of_row_at res map_of_dict_set split: option.splits cell.splits)
  from cell_float_ok [OF ok, of i] i n
  have col_ok: "\<exists>v. (case col_cells col ! i of
                 CNum x \<Rightarrow> Inr x
               | CBool b \<Rightarrow> Inr (Some (if b then 1 else 0))
               | CStr s \<Rightarrow> parse_float lib s
               | CDate t \<Rightarrow> Inl TypeError) = Inr v"
    by simp
  have val: "\<exists>v. row_float lib row vc = Inr v"
    using vc' i len l1 col_ok
    by (auto simp: r row_float_def map_of_row_at res map_of_dict_set)
  have score: "\<exists>s. row_float lib row ''anomaly_score'' = Inr s"
    using i len l1
    by (auto simp: r row_float_def map_of_row_at res map_of_dict_set)
  from date val score show ?thesis by blast
qed

text \<open>
  C4. When \<open>detect_and_create_alerts\<close> returns, its list matches, entry for entry and in
  row order, the rows of the detection result whose is\_anomaly flag is true: the same
  number of entries and, in each, the row's value and anomaly score with alert\_type
  \<open>determine_alert_type(value, metric)\<close> and severity
  \<open>classify_severity(anomaly_score, value, metric)\<close>. Rows that are not flagged give no
  entry. It returns whenever the service has a detector and a client, \<open>detect\<close> returns a
  result on the frame, and the value column is not the date column.
\<close>

theorem detect_and_create_alerts_rows:
  "(detect_and_create_alerts lib svc w climate_data value_column metric use_ai = Inr alerts
      \<longrightarrow> (\<exists>d results.
             anomaly_detector svc = Some d
           \<and> fst (detect lib d climate_data value_column) = Inr results
           \<and> list_all2 (alert_matches_row lib value_column metric)
                (filter is_anomaly_row (iterrows results)) alerts))
   \<and> (anomaly_detector svc = Some d \<and> cyoda_client svc = Some client
        \<and> fst (detect lib d climate_data value_column) = Inr results
        \<and> wf_df climate_data \<and> value_column \<noteq> ''date''
      \<longrightarrow> (\<exists>alerts. detect_and_create_alerts lib svc w climate_data value_column metric
                        use_ai = Inr alerts))"
proof (intro conjI impI)
  assume a: "detect_and_create_alerts lib svc w climate_data value_column metric use_ai
               = Inr alerts"
  then obtain d results where
    d: "anomaly_detector svc = Some d"
    and r: "fst (detect lib d climate_data value_column) = Inr results"
    and f: "for_rows (alert_for_row lib svc w value_column metric use_ai)
              (filter is_anomaly_row (iterrows results)) = Inr alerts"
    by (auto simp: detect_and_create_alerts_def Let_def split: option.splits sum.splits)
  have "list_all2 (alert_matches_row lib value_column metric)
          (filter is_anomaly_row (iterrows results)) alerts"
    using for_rows_Inr [OF f]
    by (rule list_all2_mono) (simp add: alert_for_row_Inr)
  with d r show "\<exists>d results.
             anomaly_detector svc = Some d
           \<and> fst (detect lib d climate_data value_column) = Inr results
           \<and> list_all2 (alert_matches_row lib value_column metric)
                (filter is_anomaly_row (iterrows results)) alerts"
    by blast
next
  assume h: "anomaly_detector svc = Some d \<and> cyoda_client svc = Some client
        \<and> fst (detect lib d climate_data value_column) = Inr results
        \<and> wf_df climate_data \<and> value_column \<noteq> ''date''"
  then obtain df' where det: "detect lib d climate_data value_column = (Inr results, df')"
    by (cases "detect lib d climate_data value_column") auto
  from detect_Inr [OF det] have fl: "map_of results ''is_anomaly'' \<noteq> None"
    by (auto simp: map_of_dict_set)
  have "\<forall>row \<in> set (filter is_anomaly_row (iterrows results)).
          \<exists>a. alert_for_row lib svc w value_column metric use_ai row = Inr a"
  proof
    fix row assume "row \<in> set (filter is_anomaly_row (iterrows results))"
    then have "row \<in> set (iterrows results)" by simp
    from detect_rows_readable [OF det _ _ this, of w] h
    show "\<exists>a. alert_for_row lib svc w value_column metric use_ai row = Inr a"
      by (auto intro: alert_for_row_total)
  qed
  from for_rows_total [OF this] fl h
  show "\<exists>alerts. detect_and_create_alerts lib svc w climate_data value_column metric
                        use_ai = Inr alerts"
    by (auto simp: detect_and_create_alerts_def Let_def)
qed

text \<open>
  C9. Every specification \<open>create_alert\<close> builds has status "active", acknowledged False
  and resolved False, whatever the arguments, and so has every specification in a list
  that \<open>detect_and_create_alerts\<close> returns.
\<close>

theorem specifications_newly_created:
  "newly_created (fst (create_alert w p))
   \<and> (detect_and_create_alerts lib svc w climate_data value_column metric use_ai = Inr alerts
        \<longrightarrow> list_all newly_created alerts)"
proof (intro conjI impI)
  show "newly_created (fst (create_alert w p))"
    by (simp add: newly_created_def create_alert_fields)
next
  assume a: "detect_and_create_alerts lib svc w climate_data value_column metric use_ai
               = Inr alerts"
  then obtain rows where
    f: "for_rows (alert_for_row lib svc w value_column metric use_ai) rows = Inr alerts"
    by (auto simp: detect_and_create_alerts_def Let_def split: option.splits sum.splits)
  have "list_all2 (\<lambda>r a. newly_created a) rows alerts"
    using for_rows_Inr [OF f]
    by (rule list_all2_mono) (simp add: alert_for_row_Inr)
  then show "list_all newly_created alerts"
    by (induction rule: list_all2_induct) auto
qed

section \<open>The instance, run\<close>

lemma upt2: "[0..<2] = [0, 1]"
  by (simp add: upt_rec)

lemma upt1: "[0..<1] = [0]"
  by (simp add: upt_rec)

lemma upt8: "[0..<8] = [0, 1, 2, 3, 4, 5, 6, 7]"
  by (simp add: upt_rec)

lemma example_prepare_features:
  "prepare_features example_library example_frame ''value''
     = Inr (example_converted, example_features)"
  by (simp add: prepare_features_def example_frame_def names df_len_def col_len_def
        rolling_column_def rolling_dtype_ok_def diff_column_def upt2
        example_library_def window_def col_floats_def exact_change_def
        fill_features_def fillna0_def ffill_def is_na_def
        example_converted_def example_features_def)

lemma example_model:
  "scaler_transform example_detector example_features = Inr example_features"
  "model_predict example_detector example_features = Inr [1, - 1]"
  "model_score_samples example_detector example_features = Inr [- 0.4, - 0.8]"
  by (simp_all add: example_detector_def example_features_def fgt_def)

lemma example_detect:
  "detect example_library example_detector example_frame ''value''
     = (Inr example_results, example_converted)"
  unfolding detect_def example_prepare_features
  by (simp add: example_model)
     (simp add: example_detector_def example_converted_def example_results_def df_len_def
        col_len_def)

lemma example_week_mean:
  "filled (map (\<lambda>i. CNum (rolling_mean example_library 7
       (NumCol [Some 23, Some 23, Some 23, Some 20, Some 17, Some 17, Some 17, Some 23]) i))
     [0..<8]) = replicate 8 (CNum (Some 20))"
  by (simp add: upt8 example_library_def window_def col_floats_def exact_mean_def filled_def
        fillna0_def ffill_def is_na_def numeral_eq_Suc)

lemma example_week_change:
  "filled (map (series_diff example_library
       (NumCol [Some 23, Some 23, Some 23, Some 20, Some 17, Some 17, Some 17, Some 23]))
     [0..<8]) = map (\<lambda>x. CNum (Some x)) [0, 0, 0, - 3, - 3, 0, 0, 6]"
  by (simp add: upt8 example_library_def col_floats_def exact_change_def filled_def
        fillna0_def ffill_def is_na_def)

lemma example_text_run:
  "prepare_features example_library example_text ''value'' = Inl DataError"
  by (simp add: prepare_features_def example_text_def rolling_column_def rolling_dtype_ok_def
        example_library_def)

lemma example_flagged_run:
  "detect example_library example_detector example_flagged ''value''
     = (Inr [(''value'', NumCol [Some 41]), (''is_anomaly'', BoolCol [True]),
             (''anomaly_score'', NumCol [Some 0.8])], example_flagged)"
  by (simp add: detect_def prepare_features_def example_flagged_def names df_len_def col_len_def
        rolling_column_def rolling_dtype_ok_def diff_column_def upt1
        example_library_def window_def col_floats_def exact_change_def
        fill_features_def fillna0_def ffill_def is_na_def
        example_detector_def fgt_def)

lemma example_anomalies:
  "filter is_anomaly_row (iterrows example_results) = [example_row]"
  by (simp add: iterrows_def row_at_def df_len_def col_len_def upt2 is_anomaly_row_def
        is_true_def example_results_def example_row_def)

lemma example_alert_for_row:
  "alert_for_row example_library example_service example_world ''value'' ''temperature''
     True example_row = Inr example_alert"
  by (simp add: alert_for_row_def row_date_def row_float_def example_library_def
        example_row_def example_service_def
        classify_severity_def determine_alert_type_def fgt_def flt_def
        generate_basic_description_def alert_names_def create_alert_def example_world_def
        ENTITY_MODEL_def ENTITY_VERSION_def example_alert_def)

lemma example_alerts:
  "detect_and_create_alerts example_library example_service example_world example_frame
     ''value'' ''temperature'' True = Inr [example_alert]"
proof -
  have svc: "anomaly_detector example_service = Some example_detector"
    "cyoda_client example_service = Some ()"
    by (simp_all add: example_service_def)
  have flags: "map_of example_results ''is_anomaly'' = Some (BoolCol [False, True])"
    by (simp add: example_results_def)
  show ?thesis
    unfolding detect_and_create_alerts_def
    by (simp add: svc example_detect flags example_anomalies example_alert_for_row)
qed

lemma example_wf: "wf_df example_frame"
  by (simp add: wf_df_def example_frame_def df_len_def col_len_def)


lemma example_week_wf: "wf_df example_week"
  by (simp add: wf_df_def example_week_def df_len_def col_len_def)

theorem prepare_features_no_nan_witness:
  "wf_df example_week
   \<and> map_of example_week ''value''
       = Some (NumCol [Some 23, Some 23, Some 23, Some 20, Some 17, Some 17, Some 17, Some 23])
   \<and> is_numeric (NumCol [Some 23, Some 23, Some 23, Some 20, Some 17, Some 17, Some 17, Some 23])
   \<and> (\<exists>dates ts. map_of example_week ''date'' = Some dates
         \<and> to_datetime example_library dates = Inr ts \<and> length ts = df_len example_week)
   \<and> df_len example_week = 8
   \<and> (\<exists>df' X. prepare_features example_library example_week ''value'' = Inr (df', X)
         \<and> map fst X =
             [''value'', ''rolling_mean_7'', ''rolling_std_7'', ''rolling_mean_14'',
              ''rolling_std_14'', ''rolling_mean_30'', ''rolling_std_30'', ''daily_change'',
              ''day_of_year'', ''month'']
         \<and> list_all (\<lambda>nc. length (snd nc) = 8 \<and> list_all (\<lambda>c. \<not> is_na c) (snd nc)) X
         \<and> map_of X ''rolling_mean_7'' = Some (replicate 8 (CNum (Some 20)))
         \<and> map_of X ''daily_change''
             = Some (map (\<lambda>x. CNum (Some x)) [0, 0, 0, - 3, - 3, 0, 0, 6]))"
proof -
  let ?col = "NumCol [Some 23, Some 23, Some 23, Some 20, Some 17, Some 17, Some 17, Some 23]"
  let ?dates = "StrCol [''2024-01-08'', ''2024-01-09'', ''2024-01-10'', ''2024-01-11'',
                        ''2024-01-12'', ''2024-01-13'', ''2024-01-14'', ''2024-01-15'']"
  have val: "map_of example_week ''value'' = Some ?col"
    and date: "map_of example_week ''date'' = Some ?dates"
    and len: "df_len example_week = 8"
    by (simp_all add: example_week_def df_len_def col_len_def)
  have num: "is_numeric ?col"
    by (simp add: is_numeric_def)
  have conv: "to_datetime example_library ?dates = Inr (replicate 8 (Timestamp 10))"
    by (simp add: example_library_def numeral_eq_Suc)
  have hyp: "\<forall>dates. map_of example_week ''date'' = Some dates \<longrightarrow>
               (\<exists>ts. to_datetime example_library dates = Inr ts
                  \<and> length ts = df_len example_week)"
    by (simp add: date conv len)
  from prepare_features_no_nan [OF example_week_wf val num hyp]
  obtain df' X where
    run: "prepare_features example_library example_week ''value'' = Inr (df', X)"
    and cols: "map fst X =
               [''value'', ''rolling_mean_7'', ''rolling_std_7'', ''rolling_mean_14'',
                ''rolling_std_14'', ''rolling_mean_30'', ''rolling_std_30'', ''daily_change'']
               @ (if map_of example_week ''date'' = None then []
                  else [''day_of_year'', ''month''])"
    and ok: "list_all (\<lambda>nc. length (snd nc) = df_len example_week
                          \<and> list_all (\<lambda>c. \<not> is_na c) (snd nc)) X"
    and mean: "\<forall>w \<in> {7, 14, 30}.
                 map_of X (''rolling_mean_'' @ str_nat w)
                   = Some (filled (map (\<lambda>i. CNum (rolling_mean example_library w ?col i))
                                     [0..<df_len example_week]))
               \<and> map_of X (''rolling_std_'' @ str_nat w)
                   = Some (filled (map (\<lambda>i. CNum (rolling_std example_library w ?col i))
                                     [0..<df_len example_week]))"
    and change: "map_of X ''daily_change''
               = Some (filled (map (series_diff example_library ?col)
                                 [0..<df_len example_week]))"
    by blast
  from mean have m: "map_of X ''rolling_mean_7'' = Some (replicate 8 (CNum (Some 20)))"
    by (simp add: names len example_week_mean)
  from change have c: "map_of X ''daily_change''
             = Some (map (\<lambda>x. CNum (Some x)) [0, 0, 0, - 3, - 3, 0, 0, 6])"
    by (simp add: len example_week_change)
  from cols have cols': "map fst X =
             [''value'', ''rolling_mean_7'', ''rolling_std_7'', ''rolling_mean_14'',
              ''rolling_std_14'', ''rolling_mean_30'', ''rolling_std_30'', ''daily_change'',
              ''day_of_year'', ''month'']"
    by (simp add: date)
  from ok have ok': "list_all (\<lambda>nc. length (snd nc) = 8
                          \<and> list_all (\<lambda>c. \<not> is_na c) (snd nc)) X"
    by (simp add: len)
  have d: "\<exists>dates ts. map_of example_week ''date'' = Some dates
         \<and> to_datetime example_library dates = Inr ts \<and> length ts = df_len example_week"
    using date conv len by simp
  have e: "\<exists>df' X. prepare_features example_library example_week ''value'' = Inr (df', X)
         \<and> map fst X =
             [''value'', ''rolling_mean_7'', ''rolling_std_7'', ''rolling_mean_14'',
              ''rolling_std_14'', ''rolling_mean_30'', ''rolling_std_30'', ''daily_change'',
              ''day_of_year'', ''month'']
         \<and> list_all (\<lambda>nc. length (snd nc) = 8 \<and> list_all (\<lambda>c. \<not> is_na c) (snd nc)) X
         \<and> map_of X ''rolling_mean_7'' = Some (replicate 8 (CNum (Some 20)))
         \<and> map_of X ''daily_change''
             = Some (map (\<lambda>x. CNum (Some x)) [0, 0, 0, - 3, - 3, 0, 0, 6])"
    using run cols' ok' m c by (intro exI [of _ df'] exI [of _ X] conjI)
  from example_week_wf val num d len e show ?thesis
    by (intro conjI)
qed

text \<open>
  C6 as stated fails: a frame can have a value column and make \<open>prepare_features\<close>
  raise. On a value column of text \<open>rolling(...).mean()\<close> raises DataError and no matrix
  is returned.
\<close>

theorem prepare_features_text_counterexample:
  "map_of example_text ''value'' = Some (StrCol [''missing'', ''missing''])
   \<and> prepare_features example_library example_text ''value'' = Inl DataError"
  by (simp add: example_text_run) (simp add: example_text_def)

theorem detect_columns_witness:
  "fitted example_detector
   \<and> prepare_features example_library example_frame ''value''
       = Inr (example_converted, example_features)
   \<and> scaler_transform example_detector example_features = Inr example_features
   \<and> model_predict example_detector example_features = Inr [1, - 1]
   \<and> model_score_samples example_detector example_features = Inr [- 0.4, - 0.8]
   \<and> length [1, - 1 :: int] = df_len example_converted
   \<and> length [- 0.4, - 0.8 :: real] = df_len example_converted
   \<and> (\<exists>res. detect example_library example_detector example_frame ''value''
                = (Inr res, example_converted))
   \<and> detect example_library example_detector example_frame ''value''
       = (Inr example_results, example_converted)
   \<and> df_len example_results = df_len example_frame
   \<and> set (map fst example_results)
       = set (map fst example_frame) \<union> {''is_anomaly'', ''anomaly_score''}
   \<and> map_of example_results ''is_anomaly'' = Some (BoolCol [False, True])"
proof -
  have f: "fitted example_detector"
    by (simp add: example_detector_def)
  have len: "length [1, - 1 :: int] = df_len example_converted"
    "length [- 0.4, - 0.8 :: real] = df_len example_converted"
    by (simp_all add: example_converted_def df_len_def col_len_def)
  note inst = detect_columns [where d = example_detector and lib = example_library
      and df = example_frame and value_column = "''value''"
      and converted = example_converted and X = example_features
      and X_scaled = example_features
      and predictions = "[1, - 1]" and scores = "[- 0.4, - 0.8]"
      and result_df = example_results and df' = example_converted]
  from inst f example_prepare_features example_model len
  have a: "\<exists>res. detect example_library example_detector example_frame ''value''
                = (Inr res, example_converted)"
    by blast
  from inst example_detect
  have b: "df_len example_results = df_len example_frame"
    "set (map fst example_results)
       = set (map fst example_frame) \<union> {''is_anomaly'', ''anomaly_score''}"
    by blast+
  have c: "map_of example_results ''is_anomaly'' = Some (BoolCol [False, True])"
    by (simp add: example_results_def)
  from f example_prepare_features example_model len a example_detect b c
  show ?thesis by blast
qed

text \<open>
  C7 as stated fails: the result is not always the input rows with two columns added. On
  the two-day frame the dates go in as strings and come out as timestamps; on a frame
  that already has an is\_anomaly column that column is overwritten and only one column
  is added.
\<close>

theorem detect_rows_counterexample:
  "map_of example_frame ''date'' = Some (StrCol [''2024-01-14'', ''2024-01-15''])
   \<and> fst (detect example_library example_detector example_frame ''value'')
       = Inr example_results
   \<and> map_of example_results ''date'' = Some (DateCol [Timestamp 10, Timestamp 10])
   \<and> map_of example_flagged ''is_anomaly'' = Some (NumCol [Some 7])
   \<and> fst (detect example_library example_detector example_flagged ''value'')
       = Inr [(''value'', NumCol [Some 41]), (''is_anomaly'', BoolCol [True]),
              (''anomaly_score'', NumCol [Some 0.8])]"
  by (simp add: example_detect example_flagged_run)
     (simp add: example_frame_def example_results_def example_flagged_def)

theorem detect_and_create_alerts_rows_witness:
  "anomaly_detector example_service = Some example_detector
   \<and> cyoda_client example_service = Some ()
   \<and> fst (detect example_library example_detector example_frame ''value'')
       = Inr example_results
   \<and> wf_df example_frame
   \<and> ''value'' \<noteq> ''date''
   \<and> (\<exists>alerts. detect_and_create_alerts example_library example_service example_world
                  example_frame ''value'' ''temperature'' True = Inr alerts)
   \<and> detect_and_create_alerts example_library example_service example_world example_frame
        ''value'' ''temperature'' True = Inr [example_alert]
   \<and> filter is_anomaly_row (iterrows example_results) = [example_row]
   \<and> list_all2 (alert_matches_row example_library ''value'' ''temperature'')
           [example_row] [example_alert]
   \<and> spec_field example_alert ''alert_type'' = Some (PStr ''heat_wave'')
   \<and> spec_field example_alert ''severity'' = Some (PStr ''critical'')"
proof -
  have svc: "anomaly_detector example_service = Some example_detector"
    "cyoda_client example_service = Some ()"
    by (simp_all add: example_service_def)
  have det: "fst (detect example_library example_detector example_frame ''value'')
               = Inr example_results"
    by (simp add: example_detect)
  have ne: "''value'' \<noteq> ''date''" by simp
  note inst = detect_and_create_alerts_rows [where lib = example_library
      and svc = example_service and w = example_world and climate_data = example_frame
      and value_column = "''value''" and metric = "''temperature''" and use_ai = True
      and alerts = "[example_alert]" and d = example_detector and client = "()"
      and results = example_results]
  from inst svc det example_wf ne
  have a: "\<exists>alerts. detect_and_create_alerts example_library example_service example_world
                  example_frame ''value'' ''temperature'' True = Inr alerts"
    by blast
  from inst example_alerts
  obtain d results where
    "anomaly_detector example_service = Some d"
    "fst (detect example_library d example_frame ''value'') = Inr results"
    "list_all2 (alert_matches_row example_library ''value'' ''temperature'')
           (filter is_anomaly_row (iterrows results)) [example_alert]"
    by blast
  with svc det have b: "list_all2 (alert_matches_row example_library ''value'' ''temperature'')
           [example_row] [example_alert]"
    by (simp add: example_anomalies)
  have c: "spec_field example_alert ''alert_type'' = Some (PStr ''heat_wave'')"
    "spec_field example_alert ''severity'' = Some (PStr ''critical'')"
    by (simp_all add: spec_field_def dict_get_def example_alert_def)
  from svc det example_wf ne a example_alerts example_anomalies b c
  show ?thesis by blast
qed

theorem specifications_newly_created_witness:
  "detect_and_create_alerts example_library example_service example_world example_frame
     ''value'' ''temperature'' True = Inr [example_alert]
   \<and> list_all newly_created [example_alert]
   \<and> newly_created (fst (create_alert example_world
        (default_params (PStr ''heat_wave'') (PStr ''high'') (PFloat (Some 39.5))
           (PStr ''2024-01-15'') (PFloat (Some 0.85)))))"
proof -
  note inst = specifications_newly_created [where lib = example_library
      and svc = example_service and w = example_world and climate_data = example_frame
      and value_column = "''value''" and metric = "''temperature''" and use_ai = True
      and alerts = "[example_alert]"
      and p = "default_params (PStr ''heat_wave'') (PStr ''high'') (PFloat (Some 39.5))
           (PStr ''2024-01-15'') (PFloat (Some 0.85))"]
  from inst example_alerts show ?thesis by blast
qed

end
